theory Spec2Isabelle
  imports Main "HOL-Library.Word" "HOL-Library.Log_Nat" "HOL-Library.Multiset"
begin

unbundle bit_operations_syntax

section \<open>Exchange-rate statistics: a model of \<^verbatim>\<open>main.go\<close>\<close>

text \<open>
  The program fetches one XML document of currency rates per day, parses it, and folds
  every rate into a global table of per-currency statistics (\<^verbatim>\<open>analyzeData\<close>); at
  the end it computes each average and prints one line per currency. The repository
  holds two versions of \<^verbatim>\<open>main.go\<close>: the first keeps the numeric code, the character
  code and the nominal of a currency in its statistics, the second keeps the name only.
  Both are modelled; the definitions of the second carry the suffix \<open>2\<close>.

  Network access and XML decoding are outside the model: a day is represented by its
  outcome (a fetch error, a decoding error, or the decoded \<^verbatim>\<open>ValCurs\<close>).
\<close>

subsection \<open>IEEE 754 binary64 values (\<^verbatim>\<open>float64\<close>)\<close>

text \<open>
  A \<^verbatim>\<open>float64\<close> is a NaN, a signed infinity, or a signed finite magnitude. The
  magnitude is kept as the exact rational it denotes; the sign is kept apart, so that
  \<open>-0\<close> and \<open>+0\<close> are different values, as they are in the machine. Every operation
  below delivers magnitudes that are representable in binary64.
\<close>

datatype float64 = NaN | Infty bool | Finite bool rat

definition pow2 :: "int \<Rightarrow> rat" where
  "pow2 e = (if 0 \<le> e then 2 ^ nat e else 1 / 2 ^ nat (- e))"

text \<open>\<open>ilog2 q\<close> is \<open>\<lfloor>log\<^sub>2 q\<rfloor>\<close> for a positive rational \<open>q\<close>.\<close>

definition ilog2 :: "rat \<Rightarrow> int" where
  "ilog2 q = (case quotient_of q of (a, b) \<Rightarrow>
     let k = bitlen a - bitlen b in if pow2 k \<le> q then k else k - 1)"

text \<open>Rounding to the nearest integer, ties to the even one.\<close>

definition round_even :: "rat \<Rightarrow> int" where
  "round_even x = (let f = \<lfloor>x\<rfloor>; d = x - of_int f in
     if d < 1 / 2 then f else if 1 / 2 < d then f + 1 else if even f then f else f + 1)"

text \<open>
  Rounding a non-negative magnitude to binary64, round-to-nearest-even: 53 significant
  bits, least exponent \<open>-1022\<close> (below it the spacing stays \<open>2\<^sup>-\<^sup>1\<^sup>0\<^sup>7\<^sup>4\<close>, the
  subnormal numbers); \<open>None\<close> when the rounded magnitude reaches \<open>2\<^sup>1\<^sup>0\<^sup>2\<^sup>4\<close> (overflow).
\<close>

definition round_mag :: "rat \<Rightarrow> rat option" where
  "round_mag q = (let e = max (ilog2 q) (- 1022); ulp = pow2 (e - 52);
       r = of_int (round_even (q / ulp)) * ulp
     in if 1024 \<le> ilog2 r then None else Some r)"

definition round64 :: "bool \<Rightarrow> rat \<Rightarrow> float64" where
  "round64 neg q = (case round_mag q of None \<Rightarrow> Infty neg | Some r \<Rightarrow> Finite neg r)"

definition fval :: "bool \<Rightarrow> rat \<Rightarrow> rat" where
  "fval neg m = (if neg then - m else m)"

text \<open>Go's \<^verbatim>\<open>a + b\<close> on \<^verbatim>\<open>float64\<close>.\<close>

fun fadd :: "float64 \<Rightarrow> float64 \<Rightarrow> float64" where
  "fadd NaN _ = NaN"
| "fadd _ NaN = NaN"
| "fadd (Infty s) (Infty s') = (if s = s' then Infty s else NaN)"
| "fadd (Infty s) (Finite _ _) = Infty s"
| "fadd (Finite _ _) (Infty s') = Infty s'"
| "fadd (Finite s a) (Finite s' b) =
     (let x = fval s a + fval s' b
      in if x = 0 then Finite (s \<and> s') 0 else round64 (x < 0) \<bar>x\<bar>)"

text \<open>Go's \<^verbatim>\<open>a / b\<close> on \<^verbatim>\<open>float64\<close>.\<close>

fun fdiv :: "float64 \<Rightarrow> float64 \<Rightarrow> float64" where
  "fdiv NaN _ = NaN"
| "fdiv _ NaN = NaN"
| "fdiv (Infty _) (Infty _) = NaN"
| "fdiv (Infty s) (Finite s' _) = Infty (s \<noteq> s')"
| "fdiv (Finite s _) (Infty s') = Finite (s \<noteq> s') 0"
| "fdiv (Finite s a) (Finite s' b) =
     (if b = 0 then (if a = 0 then NaN else Infty (s \<noteq> s'))
      else round64 (s \<noteq> s') (a / b))"

text \<open>Go's \<^verbatim>\<open>a < b\<close>, \<^verbatim>\<open>a > b\<close>, \<^verbatim>\<open>a == b\<close> and \<^verbatim>\<open>a <= b\<close>: each is false as soon as
  one side is a NaN, and \<open>-0\<close> equals \<open>+0\<close>.\<close>

fun flt :: "float64 \<Rightarrow> float64 \<Rightarrow> bool" where
  "flt NaN _ = False"
| "flt _ NaN = False"
| "flt (Infty s) (Infty s') = (s \<and> \<not> s')"
| "flt (Infty s) (Finite _ _) = s"
| "flt (Finite _ _) (Infty s') = (\<not> s')"
| "flt (Finite s a) (Finite s' b) = (fval s a < fval s' b)"

definition fgt :: "float64 \<Rightarrow> float64 \<Rightarrow> bool" where
  "fgt a b = flt b a"

fun feq :: "float64 \<Rightarrow> float64 \<Rightarrow> bool" where
  "feq NaN _ = False"
| "feq _ NaN = False"
| "feq (Infty s) (Infty s') = (s = s')"
| "feq (Infty _) (Finite _ _) = False"
| "feq (Finite _ _) (Infty _) = False"
| "feq (Finite s a) (Finite s' b) = (fval s a = fval s' b)"

definition fle :: "float64 \<Rightarrow> float64 \<Rightarrow> bool" where
  "fle a b = (flt a b \<or> feq a b)"

definition isNaN :: "float64 \<Rightarrow> bool" where
  "isNaN x = (x = NaN)"

text \<open>Go's \<^verbatim>\<open>int\<close> on a 64-bit platform, and the conversion \<^verbatim>\<open>float64(n)\<close>.\<close>

type_synonym go_int = "64 word"

definition float64_of_int :: "go_int \<Rightarrow> float64" where
  "float64_of_int n = round64 (sint n < 0) (of_int \<bar>sint n\<bar>)"

subsection \<open>\<^verbatim>\<open>strconv.ParseFloat(s, 64)\<close>\<close>

text \<open>
  The parser belongs to Go's standard library; it is modelled after \<^verbatim>\<open>strconv/atof.go\<close>
  (Go 1.13 and later), function by function. A string is a list of bytes. Scanning
  functions return the unread rest of the input where the Go code advances an index.
  One simplification: Go keeps the first 19 digits of the mantissa in a \<^verbatim>\<open>uint64\<close> and
  falls back to an exact decimal conversion when digits were dropped; the result is in
  every case the literal's exact value rounded to nearest-even, which is what the model
  computes from the full mantissa.
\<close>

datatype num_error = ErrSyntax | ErrRange

definition lower :: "char \<Rightarrow> nat" where
  "lower c = of_char c OR 32"

definition is_digit :: "char \<Rightarrow> bool" where
  "is_digit c = (48 \<le> (of_char c :: nat) \<and> (of_char c :: nat) \<le> 57)"

definition is_hex_letter :: "char \<Rightarrow> bool" where
  "is_hex_letter c = (97 \<le> lower c \<and> lower c \<le> 102)"

definition digit_val :: "char \<Rightarrow> int" where
  "digit_val c = int (of_char c) - 48"

fun commonPrefixLenIgnoreCase :: "string \<Rightarrow> string \<Rightarrow> nat" where
  "commonPrefixLenIgnoreCase (c # cs) (p # ps) =
     (let k = (of_char c :: nat); k' = (if 65 \<le> k \<and> k \<le> 90 then k + 32 else k)
      in if k' \<noteq> of_char p then 0 else Suc (commonPrefixLenIgnoreCase cs ps))"
| "commonPrefixLenIgnoreCase _ _ = 0"

text \<open>The \<^verbatim>\<open>case 'i', 'I'\<close> branch of \<^verbatim>\<open>special\<close>, which the sign case falls through to.\<close>

definition special_inf :: "bool \<Rightarrow> nat \<Rightarrow> string \<Rightarrow> (float64 \<times> nat) option" where
  "special_inf neg nsign s =
     (let n = commonPrefixLenIgnoreCase s ''infinity'';
          n' = (if 3 < n \<and> n < 8 then 3 else n)
      in if n' = 3 \<or> n' = 8 then Some (Infty neg, nsign + n') else None)"

text \<open>\<^verbatim>\<open>special\<close>: the value and the length of a leading \<open>inf\<close>, \<open>infinity\<close> or \<open>nan\<close>.\<close>

fun special :: "string \<Rightarrow> (float64 \<times> nat) option" where
  "special [] = None"
| "special (c # cs) =
     (if c = CHR ''+'' \<or> c = CHR ''-'' then special_inf (c = CHR ''-'') 1 cs
      else if c = CHR ''i'' \<or> c = CHR ''I'' then special_inf False 0 (c # cs)
      else if c = CHR ''n'' \<or> c = CHR ''N'' then
        (if commonPrefixLenIgnoreCase (c # cs) ''nan'' = 3 then Some (NaN, 3) else None)
      else None)"

text \<open>The loop of \<^verbatim>\<open>underscoreOK\<close>; \<open>saw\<close> is the kind of the last character.\<close>

fun underscore_loop :: "bool \<Rightarrow> char \<Rightarrow> string \<Rightarrow> bool" where
  "underscore_loop hex saw [] = (saw \<noteq> CHR ''_'')"
| "underscore_loop hex saw (c # cs) =
     (if is_digit c \<or> hex \<and> is_hex_letter c then underscore_loop hex CHR ''0'' cs
      else if c = CHR ''_'' then
        (if saw \<noteq> CHR ''0'' then False else underscore_loop hex CHR ''_'' cs)
      else if saw = CHR ''_'' then False
      else underscore_loop hex CHR ''!'' cs)"

fun has_base_prefix :: "string \<Rightarrow> bool" where
  "has_base_prefix (a # b # _) =
     (a = CHR ''0'' \<and> (lower b = 98 \<or> lower b = 111 \<or> lower b = 120))"
| "has_base_prefix _ = False"

definition underscoreOK :: "string \<Rightarrow> bool" where
  "underscoreOK s =
     (let s1 = (case s of c # cs \<Rightarrow> if c = CHR ''-'' \<or> c = CHR ''+'' then cs else s | [] \<Rightarrow> s)
      in if has_base_prefix s1
         then underscore_loop (lower (s1 ! 1) = 120) CHR ''0'' (drop 2 s1)
         else underscore_loop False CHR ''^'' s1)"

text \<open>The local variables of \<^verbatim>\<open>readFloat\<close> that its mantissa loop updates.\<close>

record scan =
  sawdot :: bool
  sawdigits :: bool
  nd :: nat
  dp :: int
  mantissa :: int
  underscores :: bool

text \<open>The mantissa loop (label \<^verbatim>\<open>loop\<close>) of \<^verbatim>\<open>readFloat\<close>, for base 10 or 16.\<close>

fun mantissa_loop :: "int \<Rightarrow> scan \<Rightarrow> string \<Rightarrow> scan \<times> string" where
  "mantissa_loop base st [] = (st, [])"
| "mantissa_loop base st (c # cs) =
     (if c = CHR ''_'' then mantissa_loop base (st\<lparr>underscores := True\<rparr>) cs
      else if c = CHR ''.'' then
        (if sawdot st then (st, c # cs)
         else mantissa_loop base (st\<lparr>sawdot := True, dp := int (nd st)\<rparr>) cs)
      else if is_digit c then
        (if c = CHR ''0'' \<and> nd st = 0
         then mantissa_loop base (st\<lparr>sawdigits := True, dp := dp st - 1\<rparr>) cs
         else mantissa_loop base
                (st\<lparr>sawdigits := True, nd := nd st + 1,
                    mantissa := mantissa st * base + digit_val c\<rparr>) cs)
      else if base = 16 \<and> is_hex_letter c then
        mantissa_loop base
          (st\<lparr>sawdigits := True, nd := nd st + 1,
              mantissa := mantissa st * 16 + (int (lower c) - 97 + 10)\<rparr>) cs
      else (st, c # cs))"

text \<open>The digit loop of the exponent: the value saturates once it has reached 10000.\<close>

fun exponent_loop :: "int \<Rightarrow> bool \<Rightarrow> string \<Rightarrow> int \<times> bool \<times> string" where
  "exponent_loop e us [] = (e, us, [])"
| "exponent_loop e us (c # cs) =
     (if c = CHR ''_'' then exponent_loop e True cs
      else if is_digit c then
        exponent_loop (if e < 10000 then e * 10 + digit_val c else e) us cs
      else (e, us, c # cs))"

text \<open>
  The optional exponent of \<^verbatim>\<open>readFloat\<close>, read after the exponent character: the signed
  exponent, whether an underscore was seen, and the rest; \<open>None\<close> where Go returns with
  \<^verbatim>\<open>ok == false\<close>.
\<close>

definition exponent_part :: "string \<Rightarrow> (int \<times> bool \<times> string) option" where
  "exponent_part s =
     (case s of [] \<Rightarrow> None
      | c # cs \<Rightarrow>
        let esign = (if c = CHR ''-'' then - 1 else 1);
            s1 = (if c = CHR ''+'' \<or> c = CHR ''-'' then cs else s)
        in (case s1 of [] \<Rightarrow> None
            | d # _ \<Rightarrow>
              if \<not> is_digit d then None
              else (case exponent_loop 0 False s1 of
                      (e, us, rest) \<Rightarrow> Some (e * esign, us, rest))))"

text \<open>What \<^verbatim>\<open>readFloat\<close> returns when \<^verbatim>\<open>ok\<close>: the literal is \<open>mant \<times> base\<^sup>e\<^sup>x\<^sup>p\<close> with base
  10, or 2 for a hexadecimal literal; \<open>rest\<close> is the input from index \<^verbatim>\<open>i\<close> on.\<close>

record float_lit =
  lit_mantissa :: int
  lit_exp :: int
  lit_neg :: bool
  lit_hex :: bool
  lit_rest :: string

fun is_hex_prefix :: "string \<Rightarrow> bool" where
  "is_hex_prefix (a # b # _ # _) = (a = CHR ''0'' \<and> lower b = 120)"
| "is_hex_prefix _ = False"

definition readFloat :: "string \<Rightarrow> float_lit option" where
  "readFloat s =
     (if s = [] then None
      else
        let neg = (hd s = CHR ''-'');
            s1 = (if hd s = CHR ''+'' \<or> hd s = CHR ''-'' then tl s else s);
            hex = is_hex_prefix s1;
            base = (if hex then 16 else 10);
            s2 = (if hex then drop 2 s1 else s1)
        in (case mantissa_loop base
                   \<lparr>sawdot = False, sawdigits = False, nd = 0, dp = 0, mantissa = 0,
                    underscores = False\<rparr> s2 of
              (st, s3) \<Rightarrow>
                if \<not> sawdigits st then None
                else
                  let dp1 = (if sawdot st then dp st else int (nd st));
                      dp2 = (if hex then dp1 * 4 else dp1);
                      ndMant = (if hex then int (nd st) * 4 else int (nd st));
                      ex = (case s3 of
                              c # cs \<Rightarrow>
                                if lower c = (if hex then 112 else 101)
                                then exponent_part cs
                                else if hex then None else Some (0, False, s3)
                            | [] \<Rightarrow> if hex then None else Some (0, False, s3))
                  in (case ex of None \<Rightarrow> None
                      | Some (e, us, rest) \<Rightarrow>
                          if (underscores st \<or> us)
                             \<and> \<not> underscoreOK (take (length s - length rest) s)
                          then None
                          else Some \<lparr>lit_mantissa = mantissa st,
                                     lit_exp = (if mantissa st \<noteq> 0 then dp2 + e - ndMant else 0),
                                     lit_neg = neg, lit_hex = hex, lit_rest = rest\<rparr>)))"

definition pow10 :: "int \<Rightarrow> rat" where
  "pow10 e = (if 0 \<le> e then 10 ^ nat e else 1 / 10 ^ nat (- e))"

text \<open>
  \<^verbatim>\<open>atof64\<close>: the value or the error, and the number of bytes read. Where \<^verbatim>\<open>readFloat\<close>
  fails the count is not modelled (0): \<^verbatim>\<open>ParseFloat\<close> answers a syntax error there
  whatever it is. An overflow is reported as \<^verbatim>\<open>ErrRange\<close>.
\<close>

definition atof64 :: "string \<Rightarrow> (num_error + float64) \<times> nat" where
  "atof64 s =
     (case special s of Some (v, n) \<Rightarrow> (Inr v, n)
      | None \<Rightarrow>
        (case readFloat s of None \<Rightarrow> (Inl ErrSyntax, 0)
         | Some l \<Rightarrow>
             let q = of_int (lit_mantissa l)
                       * (if lit_hex l then pow2 (lit_exp l) else pow10 (lit_exp l));
                 n = length s - length (lit_rest l)
             in (case round_mag q of None \<Rightarrow> (Inl ErrRange, n)
                 | Some r \<Rightarrow> (Inr (Finite (lit_neg l) r), n))))"

definition ParseFloat :: "string \<Rightarrow> num_error + float64" where
  "ParseFloat s =
     (case atof64 s of (r, n) \<Rightarrow>
        if n \<noteq> length s \<and> r \<noteq> Inl ErrSyntax then Inl ErrSyntax else r)"

subsection \<open>The data of the program\<close>

text \<open>
  \<^verbatim>\<open>Valute\<close>: one currency of one day's document. \<^verbatim>\<open>ValCurs\<close>: the document; its
  \<^verbatim>\<open>XMLName\<close> plays no part in the program and is left out.
\<close>

record Valute =
  ID :: string
  NumCode :: string
  CharCode :: string
  Nominal :: go_int
  Name :: string
  Value :: string

record ValCurs =
  Date :: string
  Valutes :: "Valute list"

text \<open>\<^verbatim>\<open>CurrencyStats\<close> of the first version. The fields that share a name with a field
  of \<^verbatim>\<open>Valute\<close> carry the prefix \<open>st\<close>.\<close>

record CurrencyStats =
  MaxValue :: float64
  MinValue :: float64
  MaxDate :: string
  MinDate :: string
  TotalValue :: float64
  Count :: go_int
  Average :: float64
  stNominal :: go_int
  CurrencyName :: string
  stNumCode :: string
  stCharCode :: string

text \<open>What the program writes to standard output, as the arguments of each
  \<^verbatim>\<open>Printf\<close>/\<^verbatim>\<open>Println\<close>: the conversion error of \<^verbatim>\<open>analyzeData\<close> (currency code, error),
  the two errors of the main loop, and the final line of a currency (in the order of
  the arguments of the first version: name, character code, numeric code, nominal,
  maximum and its date, minimum and its date, average).\<close>

datatype message =
    ConvError string num_error
  | FetchError string
  | XMLError string string
  | StatsLine string string string go_int float64 string float64 string float64
  | StatsLine2 string float64 string float64 string float64

text \<open>The state: the global map \<^verbatim>\<open>globalStats\<close> and the standard output so far.\<close>

record state =
  globalStats :: "string \<rightharpoonup> CurrencyStats"
  stdout :: "message list"

definition init_state :: state where
  "init_state = \<lparr>globalStats = Map.empty, stdout = []\<rparr>"

subsection \<open>\<^verbatim>\<open>analyzeData\<close>\<close>

text \<open>\<^verbatim>\<open>strings.Replace(s, ",", ".", -1)\<close>: every comma becomes a period.\<close>

definition replace_commas :: "string \<Rightarrow> string" where
  "replace_commas s = map (\<lambda>c. if c = CHR '','' then CHR ''.'' else c) s"

text \<open>The entry \<^verbatim>\<open>analyzeData\<close> stores for a currency that is not in the map yet
  (the struct literal; \<^verbatim>\<open>Average\<close> is not set and is zero).\<close>

definition newStats :: "string \<Rightarrow> Valute \<Rightarrow> float64 \<Rightarrow> CurrencyStats" where
  "newStats date valute v =
     \<lparr>MaxValue = v, MinValue = v, MaxDate = date, MinDate = date,
      TotalValue = v, Count = 1, Average = Finite False 0,
      stNominal = Nominal valute, CurrencyName = Name valute,
      stNumCode = NumCode valute, stCharCode = CharCode valute\<rparr>"

text \<open>The \<^verbatim>\<open>else\<close> branch: the update of the entry \<^verbatim>\<open>stats\<close> points to.\<close>

definition updateStats :: "string \<Rightarrow> float64 \<Rightarrow> CurrencyStats \<Rightarrow> CurrencyStats" where
  "updateStats date v stats =
     (let stats1 = stats\<lparr>TotalValue := fadd (TotalValue stats) v, Count := Count stats + 1\<rparr>;
          stats2 = (if fgt v (MaxValue stats1)
                    then stats1\<lparr>MaxValue := v, MaxDate := date\<rparr> else stats1)
      in if flt v (MinValue stats2)
         then stats2\<lparr>MinValue := v, MinDate := date\<rparr> else stats2)"

text \<open>The body of the loop of \<^verbatim>\<open>analyzeData\<close> for one \<^verbatim>\<open>valute\<close>; \<open>date\<close> is
  \<^verbatim>\<open>valCurs.Date\<close>.\<close>

definition analyzeValute :: "string \<Rightarrow> Valute \<Rightarrow> state \<Rightarrow> state" where
  "analyzeValute date valute s =
     (case ParseFloat (replace_commas (Value valute)) of
        Inl err \<Rightarrow> s\<lparr>stdout := stdout s @ [ConvError (CharCode valute) err]\<rparr>
      | Inr v \<Rightarrow>
          (case globalStats s (CharCode valute) of
             None \<Rightarrow>
               s\<lparr>globalStats := (globalStats s)(CharCode valute \<mapsto> newStats date valute v)\<rparr>
           | Some stats \<Rightarrow>
               s\<lparr>globalStats := (globalStats s)(CharCode valute \<mapsto> updateStats date v stats)\<rparr>))"

definition analyzeData :: "ValCurs \<Rightarrow> state \<Rightarrow> state" where
  "analyzeData valCurs s = fold (analyzeValute (Date valCurs)) (Valutes valCurs) s"

subsection \<open>\<^verbatim>\<open>main\<close>\<close>

text \<open>The outcome of one day of the main loop: \<^verbatim>\<open>fetchCurrencyRates\<close> failed (with its
  error text), \<^verbatim>\<open>parseXML\<close> failed (date label and error text), or the document.\<close>

datatype day = FetchFailed string | ParseFailed string string | Parsed ValCurs

fun processDay :: "day \<Rightarrow> state \<Rightarrow> state" where
  "processDay (FetchFailed err) s = s\<lparr>stdout := stdout s @ [FetchError err]\<rparr>"
| "processDay (ParseFailed dateStr err) s = s\<lparr>stdout := stdout s @ [XMLError dateStr err]\<rparr>"
| "processDay (Parsed valCurs) s = analyzeData valCurs s"

definition mainLoop :: "day list \<Rightarrow> state \<Rightarrow> state" where
  "mainLoop days s = fold processDay days s"

text \<open>The final loop of \<^verbatim>\<open>main\<close> sets the average of every entry of the map and prints
  its line. \<open>finalize\<close> is the map after the loop, \<open>statsLine\<close> the line of one entry.
  Go visits the entries of a map in no fixed order, so the printed lines are given as
  a set.\<close>

definition setAverage :: "CurrencyStats \<Rightarrow> CurrencyStats" where
  "setAverage stats = stats\<lparr>Average := fdiv (TotalValue stats) (float64_of_int (Count stats))\<rparr>"

definition finalize :: "(string \<rightharpoonup> CurrencyStats) \<Rightarrow> (string \<rightharpoonup> CurrencyStats)" where
  "finalize t = (\<lambda>k. map_option setAverage (t k))"

definition statsLine :: "CurrencyStats \<Rightarrow> message" where
  "statsLine stats = StatsLine (CurrencyName stats) (stCharCode stats) (stNumCode stats)
     (stNominal stats) (MaxValue stats) (MaxDate stats) (MinValue stats) (MinDate stats)
     (Average stats)"

definition printed :: "(string \<rightharpoonup> CurrencyStats) \<Rightarrow> message set" where
  "printed t = statsLine ` ran (finalize t)"

subsection \<open>The second version of the program\<close>

text \<open>The second \<^verbatim>\<open>main.go\<close> differs from the first in the fields of
  \<^verbatim>\<open>CurrencyStats\<close> (no nominal, numeric code or character code) and in the final line,
  which prints the name, the extremes with their dates and the average.\<close>

record CurrencyStats2 =
  MaxValue2 :: float64
  MinValue2 :: float64
  MaxDate2 :: string
  MinDate2 :: string
  TotalValue2 :: float64
  Count2 :: go_int
  Average2 :: float64
  CurrencyName2 :: string

record state2 =
  globalStats2 :: "string \<rightharpoonup> CurrencyStats2"
  stdout2 :: "message list"

definition init_state2 :: state2 where
  "init_state2 = \<lparr>globalStats2 = Map.empty, stdout2 = []\<rparr>"

definition newStats2 :: "string \<Rightarrow> Valute \<Rightarrow> float64 \<Rightarrow> CurrencyStats2" where
  "newStats2 date valute v =
     \<lparr>MaxValue2 = v, MinValue2 = v, MaxDate2 = date, MinDate2 = date,
      TotalValue2 = v, Count2 = 1, Average2 = Finite False 0,
      CurrencyName2 = Name valute\<rparr>"

definition updateStats2 :: "string \<Rightarrow> float64 \<Rightarrow> CurrencyStats2 \<Rightarrow> CurrencyStats2" where
  "updateStats2 date v stats =
     (let stats1 = stats\<lparr>TotalValue2 := fadd (TotalValue2 stats) v,
                          Count2 := Count2 stats + 1\<rparr>;
          stats2 = (if fgt v (MaxValue2 stats1)
                    then stats1\<lparr>MaxValue2 := v, MaxDate2 := date\<rparr> else stats1)
      in if flt v (MinValue2 stats2)
         then stats2\<lparr>MinValue2 := v, MinDate2 := date\<rparr> else stats2)"

definition analyzeValute2 :: "string \<Rightarrow> Valute \<Rightarrow> state2 \<Rightarrow> state2" where
  "analyzeValute2 date valute s =
     (case ParseFloat (replace_commas (Value valute)) of
        Inl err \<Rightarrow> s\<lparr>stdout2 := stdout2 s @ [ConvError (CharCode valute) err]\<rparr>
      | Inr v \<Rightarrow>
          (case globalStats2 s (CharCode valute) of
             None \<Rightarrow>
               s\<lparr>globalStats2 := (globalStats2 s)(CharCode valute \<mapsto> newStats2 date valute v)\<rparr>
           | Some stats \<Rightarrow>
               s\<lparr>globalStats2 :=
                    (globalStats2 s)(CharCode valute \<mapsto> updateStats2 date v stats)\<rparr>))"

definition analyzeData2 :: "ValCurs \<Rightarrow> state2 \<Rightarrow> state2" where
  "analyzeData2 valCurs s = fold (analyzeValute2 (Date valCurs)) (Valutes valCurs) s"

fun processDay2 :: "day \<Rightarrow> state2 \<Rightarrow> state2" where
  "processDay2 (FetchFailed err) s = s\<lparr>stdout2 := stdout2 s @ [FetchError err]\<rparr>"
| "processDay2 (ParseFailed dateStr err) s =
     s\<lparr>stdout2 := stdout2 s @ [XMLError dateStr err]\<rparr>"
| "processDay2 (Parsed valCurs) s = analyzeData2 valCurs s"

definition mainLoop2 :: "day list \<Rightarrow> state2 \<Rightarrow> state2" where
  "mainLoop2 days s = fold processDay2 days s"

definition setAverage2 :: "CurrencyStats2 \<Rightarrow> CurrencyStats2" where
  "setAverage2 stats =
     stats\<lparr>Average2 := fdiv (TotalValue2 stats) (float64_of_int (Count2 stats))\<rparr>"

definition finalize2 :: "(string \<rightharpoonup> CurrencyStats2) \<Rightarrow> (string \<rightharpoonup> CurrencyStats2)" where
  "finalize2 t = (\<lambda>k. map_option setAverage2 (t k))"

definition statsLine2 :: "CurrencyStats2 \<Rightarrow> message" where
  "statsLine2 stats = StatsLine2 (CurrencyName2 stats) (MaxValue2 stats) (MaxDate2 stats)
     (MinValue2 stats) (MinDate2 stats) (Average2 stats)"

definition printed2 :: "(string \<rightharpoonup> CurrencyStats2) \<Rightarrow> message set" where
  "printed2 t = statsLine2 ` ran (finalize2 t)"

subsection \<open>Vocabulary of the properties\<close>

text \<open>The rate of a record as \<^verbatim>\<open>analyzeData\<close> reads it: commas replaced, then parsed.\<close>

definition parseRate :: "Valute \<Rightarrow> num_error + float64" where
  "parseRate valute = ParseFloat (replace_commas (Value valute))"

text \<open>The records the main loop folds, each with the date of its document, in the
  order in which they are folded.\<close>

fun dayRecords :: "day \<Rightarrow> (string \<times> Valute) list" where
  "dayRecords (Parsed valCurs) = map (Pair (Date valCurs)) (Valutes valCurs)"
| "dayRecords _ = []"

definition records :: "day list \<Rightarrow> (string \<times> Valute) list" where
  "records days = concat (map dayRecords days)"

text \<open>The records of currency \<open>c\<close> whose rate is numeric, with date and value.\<close>

fun observation :: "string \<Rightarrow> string \<times> Valute \<Rightarrow> (string \<times> float64) list" where
  "observation c (d, r) =
     (if CharCode r = c then (case parseRate r of Inr v \<Rightarrow> [(d, v)] | Inl _ \<Rightarrow> []) else [])"

definition observations :: "string \<Rightarrow> (string \<times> Valute) list \<Rightarrow> (string \<times> float64) list" where
  "observations c xs = concat (map (observation c) xs)"

definition foldRecords :: "(string \<times> Valute) list \<Rightarrow> state \<Rightarrow> state" where
  "foldRecords xs s = fold (\<lambda>x. analyzeValute (fst x) (snd x)) xs s"

text \<open>The number of periods, and of commas, in a string.\<close>

definition periods :: "string \<Rightarrow> nat" where
  "periods s = length (filter (\<lambda>c. c = CHR ''.'') s)"

definition commas :: "string \<Rightarrow> nat" where
  "commas s = length (filter (\<lambda>c. c = CHR '','') s)"

text \<open>What one record does to the map, and to the entry of one currency.\<close>

definition tableStep ::
  "string \<times> Valute \<Rightarrow> (string \<rightharpoonup> CurrencyStats) \<Rightarrow> (string \<rightharpoonup> CurrencyStats)" where
  "tableStep x t =
     (case parseRate (snd x) of Inl _ \<Rightarrow> t
      | Inr v \<Rightarrow> t(CharCode (snd x) \<mapsto>
          (case t (CharCode (snd x)) of None \<Rightarrow> newStats (fst x) (snd x) v
           | Some stats \<Rightarrow> updateStats (fst x) v stats)))"

definition entryStep ::
  "string \<Rightarrow> string \<times> Valute \<Rightarrow> CurrencyStats option \<Rightarrow> CurrencyStats option" where
  "entryStep c x e =
     (if CharCode (snd x) = c
      then (case parseRate (snd x) of Inl _ \<Rightarrow> e
            | Inr v \<Rightarrow> Some (case e of None \<Rightarrow> newStats (fst x) (snd x) v
                              | Some stats \<Rightarrow> updateStats (fst x) v stats))
      else e)"

text \<open>The extremes of an entry bound every value of \<open>V\<close> that is not a NaN, and are
  not NaN themselves.\<close>

definition extremesBound :: "CurrencyStats \<Rightarrow> float64 set \<Rightarrow> bool" where
  "extremesBound a V =
     (\<not> isNaN (MinValue a) \<and> \<not> isNaN (MaxValue a)
      \<and> (\<forall>v\<in>V. \<not> isNaN v \<longrightarrow> fle (MinValue a) v \<and> fle v (MaxValue a)))"

text \<open>An entry and a state of the first version, seen through the fields the second
  version has.\<close>

definition forgetCodes :: "CurrencyStats \<Rightarrow> CurrencyStats2" where
  "forgetCodes a =
     \<lparr>MaxValue2 = MaxValue a, MinValue2 = MinValue a, MaxDate2 = MaxDate a,
      MinDate2 = MinDate a, TotalValue2 = TotalValue a, Count2 = Count a,
      Average2 = Average a, CurrencyName2 = CurrencyName a\<rparr>"

definition forgetState :: "state \<Rightarrow> state2" where
  "forgetState s =
     \<lparr>globalStats2 = (\<lambda>k. map_option forgetCodes (globalStats s k)), stdout2 = stdout s\<rparr>"

subsection \<open>Example inputs\<close>

text \<open>Records of the feed, with the rate as the feed writes it (decimal comma).\<close>

definition valute :: "string \<Rightarrow> string \<Rightarrow> string \<Rightarrow> string \<Rightarrow> Valute" where
  "valute num code name rate =
     \<lparr>ID = [], NumCode = num, CharCode = code, Nominal = 1, Name = name, Value = rate\<rparr>"

definition usd :: "string \<Rightarrow> Valute" where
  "usd rate = valute ''840'' ''USD'' ''US Dollar'' rate"

definition eur :: "string \<Rightarrow> Valute" where
  "eur rate = valute ''978'' ''EUR'' ''Euro'' rate"

definition jpy :: "string \<Rightarrow> Valute" where
  "jpy rate = valute ''392'' ''JPY'' ''Japanese Yen'' rate"

text \<open>Two days of the feed: the second record of the first day is not numeric.\<close>

definition two_days :: "day list" where
  "two_days =
     [Parsed \<lparr>Date = ''01.01.2024'', Valutes = [usd ''75,5'', eur ''abc'']\<rparr>,
      Parsed \<lparr>Date = ''02.01.2024'', Valutes = [usd ''76,2'']\<rparr>]"

text \<open>One day on which the rate of a currency reads \<open>NaN\<close> in its first record.\<close>

definition nan_day :: "day list" where
  "nan_day = [Parsed \<lparr>Date = ''01.01.2024'', Valutes = [usd ''NaN'', usd ''75,5'']\<rparr>]"

text \<open>The same two records in two orders, on one day and across two days.\<close>

definition usd_then_eur :: "day list" where
  "usd_then_eur =
     [Parsed \<lparr>Date = ''01.01.2024'', Valutes = [usd ''75,5'']\<rparr>,
      Parsed \<lparr>Date = ''02.01.2024'', Valutes = [eur ''90,1'']\<rparr>]"

definition eur_then_usd :: "day list" where
  "eur_then_usd =
     [Parsed \<lparr>Date = ''02.01.2024'', Valutes = [eur ''90,1'']\<rparr>,
      Parsed \<lparr>Date = ''01.01.2024'', Valutes = [usd ''75,5'']\<rparr>]"

text \<open>The entry of the dollar after \<open>two_days\<close>.\<close>

definition usd_two_days :: CurrencyStats where
  "usd_two_days =
     \<lparr>MaxValue = Finite False (5362098306337997 / 70368744177664),
      MinValue = Finite False (151 / 2),
      MaxDate = ''02.01.2024'', MinDate = ''01.01.2024'',
      TotalValue = Finite False (2668734622937907 / 17592186044416), Count = 2,
      Average = Finite False 0, stNominal = 1, CurrencyName = ''US Dollar'',
      stNumCode = ''840'', stCharCode = ''USD''\<rparr>"

text \<open>One day with one record, for two currencies that share their name and rate.\<close>

definition dollar_day :: "string \<Rightarrow> string \<Rightarrow> day list" where
  "dollar_day num code =
     [Parsed \<lparr>Date = ''01.01.2024'', Valutes = [valute num code ''Dollar'' ''75,5'']\<rparr>]"

section \<open>Properties\<close>

subsection \<open>The main loop as a fold over records\<close>

lemma globalStats_analyzeValute:
  "globalStats (analyzeValute d r s) = tableStep (d, r) (globalStats s)"
  by (simp add: analyzeValute_def tableStep_def parseRate_def split: sum.splits option.splits)

lemma tableStep_entry: "tableStep x t c = entryStep c x (t c)"
  by (simp add: tableStep_def entryStep_def split: sum.splits)

lemma globalStats_foldRecords:
  "globalStats (foldRecords xs s) = fold tableStep xs (globalStats s)"
  by (induction xs arbitrary: s) (simp_all add: foldRecords_def globalStats_analyzeValute)

lemma fold_tableStep_entry: "fold tableStep xs t c = fold (entryStep c) xs (t c)"
  by (induction xs arbitrary: t) (simp_all add: tableStep_entry)

lemma analyzeData_foldRecords:
  "analyzeData vc s = foldRecords (dayRecords (Parsed vc)) s"
  by (simp add: analyzeData_def foldRecords_def fold_map comp_def)

lemma foldRecords_append:
  "foldRecords (xs @ ys) s = foldRecords ys (foldRecords xs s)"
  by (simp add: foldRecords_def)

lemma mainLoop_foldRecords:
  "globalStats (mainLoop days s) = globalStats (foldRecords (records days) s)"
proof (induction days arbitrary: s)
  case Nil
  show ?case by (simp add: mainLoop_def records_def foldRecords_def)
next
  case (Cons d days)
  have IH: "\<And>s. globalStats (mainLoop days s) = globalStats (foldRecords (records days) s)"
    by (rule Cons.IH)
  show ?case
  proof (cases d)
    case (Parsed vc)
    then show ?thesis
      using IH [of "analyzeData vc s"]
      by (simp add: mainLoop_def records_def foldRecords_append analyzeData_foldRecords)
  next
    case (FetchFailed e)
    then show ?thesis
      using IH [of "s\<lparr>stdout := stdout s @ [FetchError e]\<rparr>"]
      by (simp add: mainLoop_def records_def globalStats_foldRecords)
  next
    case (ParseFailed l e)
    then show ?thesis
      using IH [of "s\<lparr>stdout := stdout s @ [XMLError l e]\<rparr>"]
      by (simp add: mainLoop_def records_def globalStats_foldRecords)
  qed
qed

text \<open>The entry of currency \<open>c\<close> after the main loop, from the entry before it.\<close>

lemma mainLoop_entry:
  "globalStats (mainLoop days s) c = fold (entryStep c) (records days) (globalStats s c)"
  by (simp add: mainLoop_foldRecords globalStats_foldRecords fold_tableStep_entry)

subsection \<open>Order of \<^verbatim>\<open>float64\<close> values\<close>

lemma flt_irrefl: "\<not> flt x x"
  by (cases x) simp_all

lemma feq_flt_right: "feq a b \<Longrightarrow> flt m b = flt m a"
  by (cases a; cases b; cases m) (simp_all add: fval_def)

lemma feq_flt_left: "feq a b \<Longrightarrow> flt b m = flt a m"
  by (cases a; cases b; cases m) (simp_all add: fval_def)

lemma feq_not_flt: "feq a b \<Longrightarrow> \<not> flt a b \<and> \<not> flt b a"
  by (cases a; cases b) (simp_all add: fval_def)

subsection \<open>One record\<close>

lemma analyzeValute_absent:
  "globalStats s (CharCode r) = None \<Longrightarrow> parseRate r = Inr v \<Longrightarrow>
   analyzeValute d r s = s\<lparr>globalStats := (globalStats s)(CharCode r \<mapsto> newStats d r v)\<rparr>"
  by (simp add: analyzeValute_def parseRate_def)

lemma analyzeValute_present:
  "globalStats s (CharCode r) = Some a \<Longrightarrow> parseRate r = Inr v \<Longrightarrow>
   analyzeValute d r s = s\<lparr>globalStats := (globalStats s)(CharCode r \<mapsto> updateStats d v a)\<rparr>"
  by (simp add: analyzeValute_def parseRate_def)

lemma updateStats_fields:
  "updateStats d v a =
     a\<lparr>TotalValue := fadd (TotalValue a) v, Count := Count a + 1,
       MaxValue := (if fgt v (MaxValue a) then v else MaxValue a),
       MaxDate := (if fgt v (MaxValue a) then d else MaxDate a),
       MinValue := (if flt v (MinValue a) then v else MinValue a),
       MinDate := (if flt v (MinValue a) then d else MinDate a)\<rparr>"
  by (simp add: updateStats_def Let_def)

text \<open>
  C4. A record of a currency that is not in the map yet, with a rate that parses to
  \<open>v\<close>: the fold stores a new entry for the currency with minimum and maximum \<open>v\<close>,
  both dates the date of the document, sum \<open>v\<close> and count 1 (and the nominal, name and
  codes of the record); nothing else changes.
\<close>

theorem new_currency_inserted:
  assumes "globalStats s (CharCode r) = None" and "parseRate r = Inr v"
  shows "analyzeValute d r s =
     s\<lparr>globalStats := (globalStats s)(CharCode r \<mapsto>
          \<lparr>MaxValue = v, MinValue = v, MaxDate = d, MinDate = d, TotalValue = v, Count = 1,
           Average = Finite False 0, stNominal = Nominal r, CurrencyName = Name r,
           stNumCode = NumCode r, stCharCode = CharCode r\<rparr>)\<rparr>"
  using assms by (simp add: analyzeValute_absent newStats_def)

theorem new_currency_inserted_witness:
  "globalStats init_state (CharCode (jpy ''0,5'')) = None
   \<and> parseRate (jpy ''0,5'') = Inr (Finite False (1 / 2))
   \<and> analyzeValute ''01.01.2024'' (jpy ''0,5'') init_state =
     init_state\<lparr>globalStats := (globalStats init_state)(''JPY'' \<mapsto>
          \<lparr>MaxValue = Finite False (1 / 2), MinValue = Finite False (1 / 2),
           MaxDate = ''01.01.2024'', MinDate = ''01.01.2024'',
           TotalValue = Finite False (1 / 2), Count = 1,
           Average = Finite False 0, stNominal = 1, CurrencyName = ''Japanese Yen'',
           stNumCode = ''392'', stCharCode = ''JPY''\<rparr>)\<rparr>"
proof -
  have absent: "globalStats init_state (CharCode (jpy ''0,5'')) = None"
    by (simp add: init_state_def)
  have numeric: "parseRate (jpy ''0,5'') = Inr (Finite False (1 / 2))"
    by code_simp
  show ?thesis
    using new_currency_inserted [OF absent numeric, of "''01.01.2024''"] absent numeric
    by (simp add: jpy_def valute_def)
qed

lemma analyzeValute2_present:
  "globalStats2 s (CharCode r) = Some a \<Longrightarrow> parseRate r = Inr v \<Longrightarrow>
   analyzeValute2 d r s = s\<lparr>globalStats2 := (globalStats2 s)(CharCode r \<mapsto> updateStats2 d v a)\<rparr>"
  by (simp add: analyzeValute2_def parseRate_def)

lemma updateStats2_fields:
  "updateStats2 d v a =
     a\<lparr>TotalValue2 := fadd (TotalValue2 a) v, Count2 := Count2 a + 1,
       MaxValue2 := (if fgt v (MaxValue2 a) then v else MaxValue2 a),
       MaxDate2 := (if fgt v (MaxValue2 a) then d else MaxDate2 a),
       MinValue2 := (if flt v (MinValue2 a) then v else MinValue2 a),
       MinDate2 := (if flt v (MinValue2 a) then d else MinDate2 a)\<rparr>"
  by (simp add: updateStats2_def Let_def)

lemma analyzeValute_entry:
  "globalStats (analyzeValute d r s) c = entryStep c (d, r) (globalStats s c)"
  by (simp add: globalStats_analyzeValute tableStep_entry)

text \<open>After a value has been folded, no equal value is a new extreme.\<close>

lemma entryStep_no_new_extreme:
  assumes "CharCode r = c" and "parseRate r = Inr v" and "feq v v' \<or> v' = v"
    and "entryStep c (d, r) e = Some a"
  shows "\<not> fgt v' (MaxValue a) \<and> \<not> flt v' (MinValue a)"
proof -
  have same: "flt m v' = flt m v" "flt v' m = flt v m" for m
    using assms(3) feq_flt_right [of v v' m] feq_flt_left [of v v' m] by auto
  have "\<not> flt (MaxValue a) v \<and> \<not> flt v (MinValue a)"
    using assms(1,2,4)
    by (auto simp: entryStep_def newStats_def updateStats_fields fgt_def flt_irrefl
             split: option.splits if_splits)
  then show ?thesis by (simp add: fgt_def same)
qed

lemma tie_keeps_dates:
  assumes "CharCode r1 = c" and "CharCode r2 = c"
    and "parseRate r1 = Inr v1" and "parseRate r2 = Inr v2" and "feq v1 v2 \<or> v2 = v1"
  shows "map_option MaxDate (globalStats (analyzeValute d2 r2 (analyzeValute d1 r1 s)) c)
           = map_option MaxDate (globalStats (analyzeValute d1 r1 s) c)
       \<and> map_option MinDate (globalStats (analyzeValute d2 r2 (analyzeValute d1 r1 s)) c)
           = map_option MinDate (globalStats (analyzeValute d1 r1 s) c)"
proof -
  obtain a where a: "entryStep c (d1, r1) (globalStats s c) = Some a"
    using assms(1,3) by (simp add: entryStep_def)
  have "\<not> fgt v2 (MaxValue a) \<and> \<not> flt v2 (MinValue a)"
    using entryStep_no_new_extreme [OF assms(1,3,5) a] .
  then show ?thesis
    using assms(2,4) a by (simp add: analyzeValute_entry entryStep_def updateStats_fields)
qed

lemma first_occurrence_dates:
  assumes "CharCode r1 = c" and "parseRate r1 = Inr v1" and "globalStats s c = None"
  shows "map_option MaxDate (globalStats (analyzeValute d1 r1 s) c) = Some d1
       \<and> map_option MinDate (globalStats (analyzeValute d1 r1 s) c) = Some d1"
  using assms by (simp add: analyzeValute_entry entryStep_def newStats_def)

text \<open>
  C1. A record whose rate parses to \<open>v\<close>, folded into a currency whose entry \<open>a\<close>
  exists (in either version of the program): the sum becomes the sum plus \<open>v\<close>, the
  count the count plus one; the maximum and its date become \<open>v\<close> and the date of the
  document exactly when \<open>v\<close> is strictly greater than the maximum, the minimum and its
  date exactly when \<open>v\<close> is strictly less than the minimum; nothing else changes. A
  value equal to an extreme leaves the date of that extreme as it is. Of two records of
  one currency with equal values, the second changes neither date, so after the first
  occurrence of a currency both dates are still the date of the first record.
\<close>

theorem fold_into_existing:
  assumes "globalStats s (CharCode r) = Some a" and "globalStats2 s2 (CharCode r) = Some a2"
    and "parseRate r = Inr v"
    and "CharCode r1 = c" and "CharCode r2 = c"
    and "parseRate r1 = Inr v1" and "parseRate r2 = Inr v2" and "feq v1 v2 \<or> v2 = v1"
  shows "analyzeValute d r s =
       s\<lparr>globalStats := (globalStats s)(CharCode r \<mapsto>
          a\<lparr>TotalValue := fadd (TotalValue a) v, Count := Count a + 1,
            MaxValue := (if fgt v (MaxValue a) then v else MaxValue a),
            MaxDate := (if fgt v (MaxValue a) then d else MaxDate a),
            MinValue := (if flt v (MinValue a) then v else MinValue a),
            MinDate := (if flt v (MinValue a) then d else MinDate a)\<rparr>)\<rparr>
     \<and> analyzeValute2 d r s2 =
       s2\<lparr>globalStats2 := (globalStats2 s2)(CharCode r \<mapsto>
          a2\<lparr>TotalValue2 := fadd (TotalValue2 a2) v, Count2 := Count2 a2 + 1,
            MaxValue2 := (if fgt v (MaxValue2 a2) then v else MaxValue2 a2),
            MaxDate2 := (if fgt v (MaxValue2 a2) then d else MaxDate2 a2),
            MinValue2 := (if flt v (MinValue2 a2) then v else MinValue2 a2),
            MinDate2 := (if flt v (MinValue2 a2) then d else MinDate2 a2)\<rparr>)\<rparr>
     \<and> (feq v (MaxValue a) \<longrightarrow>
          map_option MaxDate (globalStats (analyzeValute d r s) (CharCode r)) = Some (MaxDate a))
     \<and> (feq v (MinValue a) \<longrightarrow>
          map_option MinDate (globalStats (analyzeValute d r s) (CharCode r)) = Some (MinDate a))
     \<and> map_option MaxDate (globalStats (analyzeValute d2 r2 (analyzeValute d1 r1 s0)) c)
          = map_option MaxDate (globalStats (analyzeValute d1 r1 s0) c)
     \<and> map_option MinDate (globalStats (analyzeValute d2 r2 (analyzeValute d1 r1 s0)) c)
          = map_option MinDate (globalStats (analyzeValute d1 r1 s0) c)
     \<and> (globalStats s0 c = None \<longrightarrow>
          map_option MaxDate (globalStats (analyzeValute d2 r2 (analyzeValute d1 r1 s0)) c)
            = Some d1
          \<and> map_option MinDate (globalStats (analyzeValute d2 r2 (analyzeValute d1 r1 s0)) c)
            = Some d1)"
proof -
  have step: "analyzeValute d r s =
       s\<lparr>globalStats := (globalStats s)(CharCode r \<mapsto> updateStats d v a)\<rparr>"
    using assms(1,3) by (rule analyzeValute_present)
  have step2: "analyzeValute2 d r s2 =
       s2\<lparr>globalStats2 := (globalStats2 s2)(CharCode r \<mapsto> updateStats2 d v a2)\<rparr>"
    using assms(2,3) by (rule analyzeValute2_present)
  have tie_max: "feq v (MaxValue a) \<longrightarrow>
       map_option MaxDate (globalStats (analyzeValute d r s) (CharCode r)) = Some (MaxDate a)"
    using feq_not_flt [of v "MaxValue a"] by (simp add: step updateStats_fields fgt_def)
  have tie_min: "feq v (MinValue a) \<longrightarrow>
       map_option MinDate (globalStats (analyzeValute d r s) (CharCode r)) = Some (MinDate a)"
    using feq_not_flt [of v "MinValue a"] by (simp add: step updateStats_fields)
  note pair = tie_keeps_dates [OF assms(4,5,6,7,8), of d2 d1 s0]
  note first = first_occurrence_dates [OF assms(4,6), of s0 d1]
  show ?thesis
    using step step2 tie_max tie_min pair first
    by (simp only: updateStats_fields updateStats2_fields) simp
qed


theorem fold_into_existing_witness:
  "globalStats (analyzeValute ''01.01.2024'' (usd ''75,0'') init_state) (CharCode (usd ''76,2''))
     = Some (newStats ''01.01.2024'' (usd ''75,0'') (Finite False 75))
   \<and> globalStats2 (analyzeValute2 ''01.01.2024'' (usd ''75,0'') init_state2)
       (CharCode (usd ''76,2''))
     = Some (newStats2 ''01.01.2024'' (usd ''75,0'') (Finite False 75))
   \<and> parseRate (usd ''76,2'') = Inr (Finite False (5362098306337997 / 70368744177664))
   \<and> CharCode (usd ''75,0'') = ''USD''
   \<and> parseRate (usd ''75,0'') = Inr (Finite False 75)
   \<and> (feq (Finite False 75) (Finite False 75) \<or> Finite False 75 = Finite False 75)
   \<and> map_option MaxDate
        (globalStats (analyzeValute ''02.01.2024'' (usd ''76,2'')
           (analyzeValute ''01.01.2024'' (usd ''75,0'') init_state)) ''USD'')
       = Some ''02.01.2024''
   \<and> map_option MinDate
        (globalStats (analyzeValute ''02.01.2024'' (usd ''76,2'')
           (analyzeValute ''01.01.2024'' (usd ''75,0'') init_state)) ''USD'')
       = Some ''01.01.2024''
   \<and> map_option Count
        (globalStats (analyzeValute ''02.01.2024'' (usd ''76,2'')
           (analyzeValute ''01.01.2024'' (usd ''75,0'') init_state)) ''USD'')
       = Some 2
   \<and> map_option MaxDate
        (globalStats (analyzeValute ''02.01.2024'' (usd ''75,0'')
           (analyzeValute ''01.01.2024'' (usd ''75,0'') init_state)) ''USD'')
       = Some ''01.01.2024''
   \<and> map_option MinDate
        (globalStats (analyzeValute ''02.01.2024'' (usd ''75,0'')
           (analyzeValute ''01.01.2024'' (usd ''75,0'') init_state)) ''USD'')
       = Some ''01.01.2024''"
proof -
  have h1: "globalStats (analyzeValute ''01.01.2024'' (usd ''75,0'') init_state)
              (CharCode (usd ''76,2''))
            = Some (newStats ''01.01.2024'' (usd ''75,0'') (Finite False 75))"
    by code_simp
  have h2: "globalStats2 (analyzeValute2 ''01.01.2024'' (usd ''75,0'') init_state2)
              (CharCode (usd ''76,2''))
            = Some (newStats2 ''01.01.2024'' (usd ''75,0'') (Finite False 75))"
    by code_simp
  have h3: "parseRate (usd ''76,2'') = Inr (Finite False (5362098306337997 / 70368744177664))"
    by code_simp
  have h4: "CharCode (usd ''75,0'') = ''USD''"
    by (simp add: usd_def valute_def)
  have h5: "parseRate (usd ''75,0'') = Inr (Finite False 75)"
    by code_simp
  have h6: "feq (Finite False 75) (Finite False 75) \<or> Finite False 75 = Finite False 75"
    by simp
  have h7: "globalStats init_state ''USD'' = None"
    by (simp add: init_state_def)
  note th = fold_into_existing [OF h1 h2 h3 h4 h4 h5 h5 h6,
      of "''02.01.2024''" "''02.01.2024''" "''01.01.2024''" init_state]
  have c76: "CharCode (usd ''76,2'') = ''USD''"
    by (simp add: usd_def valute_def)
  show ?thesis
    using th h1 h2 h3 h4 h5 h6 h7
    by (simp add: c76 newStats_def fgt_def fval_def)
qed


subsection \<open>Records that are not numeric\<close>

lemma tableStep_skip: "parseRate r = Inl err \<Longrightarrow> tableStep (d, r) t = t"
  by (simp add: tableStep_def)

text \<open>
  C3. A record whose rate, commas replaced, is rejected by the parser: the fold changes
  nothing in the map (no entry is created, no entry changes); it writes the conversion
  error for the currency to standard output, and the loop goes on with the remaining
  records of the document and with the later days, so that the map at the end is the
  one obtained without the record.
\<close>

theorem non_numeric_skipped:
  assumes "parseRate r = Inl err"
  shows "analyzeValute d r s = s\<lparr>stdout := stdout s @ [ConvError (CharCode r) err]\<rparr>
     \<and> globalStats (analyzeValute d r s) = globalStats s
     \<and> analyzeData \<lparr>Date = d, Valutes = xs @ r # ys\<rparr> s
         = analyzeData \<lparr>Date = d, Valutes = ys\<rparr>
             ((analyzeData \<lparr>Date = d, Valutes = xs\<rparr> s)
                \<lparr>stdout := stdout (analyzeData \<lparr>Date = d, Valutes = xs\<rparr> s)
                             @ [ConvError (CharCode r) err]\<rparr>)
     \<and> globalStats (analyzeData \<lparr>Date = d, Valutes = xs @ r # ys\<rparr> s)
         = globalStats (analyzeData \<lparr>Date = d, Valutes = xs @ ys\<rparr> s)
     \<and> mainLoop (days1 @ Parsed \<lparr>Date = d, Valutes = xs @ r # ys\<rparr> # days2) s
         = mainLoop days2 (analyzeData \<lparr>Date = d, Valutes = xs @ r # ys\<rparr> (mainLoop days1 s))
     \<and> globalStats (mainLoop (days1 @ Parsed \<lparr>Date = d, Valutes = xs @ r # ys\<rparr> # days2) s)
         = globalStats (mainLoop (days1 @ Parsed \<lparr>Date = d, Valutes = xs @ ys\<rparr> # days2) s)"
proof -
  have one: "analyzeValute d r s = s\<lparr>stdout := stdout s @ [ConvError (CharCode r) err]\<rparr>" for s
    using assms by (simp add: analyzeValute_def parseRate_def)
  have batch: "analyzeData \<lparr>Date = d, Valutes = xs @ r # ys\<rparr> s
         = analyzeData \<lparr>Date = d, Valutes = ys\<rparr>
             ((analyzeData \<lparr>Date = d, Valutes = xs\<rparr> s)
                \<lparr>stdout := stdout (analyzeData \<lparr>Date = d, Valutes = xs\<rparr> s)
                             @ [ConvError (CharCode r) err]\<rparr>)"
    by (simp add: analyzeData_def one)
  have table: "globalStats (analyzeData \<lparr>Date = d, Valutes = xs @ r # ys\<rparr> s)
         = globalStats (analyzeData \<lparr>Date = d, Valutes = xs @ ys\<rparr> s)" for s
    using assms
    by (simp add: analyzeData_foldRecords globalStats_foldRecords tableStep_skip)
  have loop: "mainLoop (days1 @ Parsed \<lparr>Date = d, Valutes = xs @ r # ys\<rparr> # days2) s
         = mainLoop days2 (analyzeData \<lparr>Date = d, Valutes = xs @ r # ys\<rparr> (mainLoop days1 s))"
    by (simp add: mainLoop_def)
  have all: "globalStats (mainLoop (days1 @ Parsed \<lparr>Date = d, Valutes = xs @ r # ys\<rparr> # days2) s)
         = globalStats (mainLoop (days1 @ Parsed \<lparr>Date = d, Valutes = xs @ ys\<rparr> # days2) s)"
    using assms
    by (simp add: mainLoop_foldRecords globalStats_foldRecords records_def tableStep_skip)
  show ?thesis
    using one [of s] batch table [of s] loop all by simp
qed

theorem non_numeric_skipped_witness:
  "parseRate (eur ''abc'') = Inl ErrSyntax
   \<and> analyzeValute ''01.01.2024'' (eur ''abc'') init_state
       = init_state\<lparr>stdout := [ConvError ''EUR'' ErrSyntax]\<rparr>
   \<and> globalStats (analyzeValute ''01.01.2024'' (eur ''abc'') init_state) ''EUR'' = None
   \<and> globalStats (mainLoop [Parsed \<lparr>Date = ''01.01.2024'',
          Valutes = [usd ''75,5'', eur ''abc'', jpy ''0,5'']\<rparr>,
          Parsed \<lparr>Date = ''02.01.2024'', Valutes = [usd ''76,2'']\<rparr>] init_state)
       = globalStats (mainLoop [Parsed \<lparr>Date = ''01.01.2024'',
          Valutes = [usd ''75,5'', jpy ''0,5'']\<rparr>,
          Parsed \<lparr>Date = ''02.01.2024'', Valutes = [usd ''76,2'']\<rparr>] init_state)"
proof -
  have bad: "parseRate (eur ''abc'') = Inl ErrSyntax"
    by code_simp
  have code: "CharCode (eur ''abc'') = ''EUR''"
    by (simp add: eur_def valute_def)
  note th = non_numeric_skipped [OF bad, of "''01.01.2024''" init_state "[usd ''75,5'']"
      "[jpy ''0,5'']" "[]" "[Parsed \<lparr>Date = ''02.01.2024'', Valutes = [usd ''76,2'']\<rparr>]"]
  note th' = th [unfolded append.simps]
  note one = th' [THEN conjunct1]
  note all = th' [THEN conjunct2, THEN conjunct2, THEN conjunct2, THEN conjunct2, THEN conjunct2]
  have absent: "globalStats (analyzeValute ''01.01.2024'' (eur ''abc'') init_state) ''EUR'' = None"
    unfolding one by (simp add: init_state_def)
  have out0: "stdout init_state = []"
    by (simp add: init_state_def)
  show ?thesis
    using one all absent bad unfolding code by (simp add: out0)
qed


subsection \<open>Sequences of records\<close>

lemma observations_Nil: "observations c [] = []"
  by (simp add: observations_def)

lemma observations_Cons: "observations c (x # xs) = observation c x @ observations c xs"
  by (simp add: observations_def)

lemma entryStep_no_observation:
  "observation c x = [] \<Longrightarrow> entryStep c x e = e"
  by (cases x) (auto simp: entryStep_def split: sum.splits if_splits)

lemma entryStep_observation:
  "observation c x = [(d, v)] \<Longrightarrow>
   entryStep c x e = Some (case e of None \<Rightarrow> newStats (fst x) (snd x) v
                                  | Some a \<Rightarrow> updateStats (fst x) v a)
   \<and> d = fst x"
  by (cases x) (auto simp: entryStep_def split: sum.splits if_splits)

lemma observation_cases:
  "observation c x = [] \<or> (\<exists>v. observation c x = [(fst x, v)])"
  by (cases x) (auto split: sum.splits)

subsection \<open>The count\<close>

lemma fold_entry_count:
  "case_option 0 Count (fold (entryStep c) xs e)
     = case_option 0 Count e + word_of_nat (length (observations c xs))"
proof (induction xs arbitrary: e)
  case Nil
  show ?case by (simp add: observations_Nil)
next
  case (Cons x xs)
  show ?case
  proof (cases "observation c x = []")
    case True
    then show ?thesis
      using Cons.IH [of e] by (simp add: observations_Cons entryStep_no_observation)
  next
    case False
    then obtain v where v: "observation c x = [(fst x, v)]"
      using observation_cases [of c x] by blast
    have "case_option 0 Count (entryStep c x e) = case_option 0 Count e + 1"
      using entryStep_observation [OF v, of e]
      by (simp add: newStats_def updateStats_fields split: option.splits)
    then show ?thesis
      using Cons.IH [of "entryStep c x e"] by (simp add: observations_Cons v)
  qed
qed

lemma fold_entry_Some: "fold (entryStep c) xs (Some a) \<noteq> None"
proof (induction xs arbitrary: a)
  case Nil
  show ?case by simp
next
  case (Cons x xs)
  have "\<exists>a'. entryStep c x (Some a) = Some a'"
    by (simp add: entryStep_def split: sum.splits)
  then obtain a' where "entryStep c x (Some a) = Some a'" ..
  then show ?case using Cons.IH [of a'] by simp
qed

lemma fold_entry_None_iff:
  "fold (entryStep c) xs None = None \<longleftrightarrow> observations c xs = []"
proof (induction xs)
  case Nil
  show ?case by (simp add: observations_Nil)
next
  case (Cons x xs)
  show ?case
  proof (cases "observation c x = []")
    case True
    then show ?thesis
      using Cons.IH by (simp add: observations_Cons entryStep_no_observation)
  next
    case False
    then obtain v where v: "observation c x = [(fst x, v)]"
      using observation_cases [of c x] by blast
    show ?thesis
      using entryStep_observation [OF v, of None] fold_entry_Some
      by (simp add: observations_Cons v)
  qed
qed

lemma sint_word_of_nat_64:
  "n < 2 ^ 63 \<Longrightarrow> sint (word_of_nat n :: go_int) = int n"
  by (simp add: signed_of_nat signed_take_bit_int_eq_self)

text \<open>
  C5. After the main loop has folded any sequence of days into the empty map, the count
  of a currency is the number of folded records with that currency code whose rate,
  commas replaced, is numeric: the currency has no entry exactly when there is no such
  record, and otherwise \<^verbatim>\<open>Count\<close> is that number as a Go \<^verbatim>\<open>int\<close>, read back as the
  number itself as long as it is below \<open>2\<^sup>6\<^sup>3\<close>.
\<close>

theorem count_is_number_of_numeric_records:
  "(globalStats (mainLoop days init_state) c = None
      \<longleftrightarrow> observations c (records days) = [])
   \<and> (\<forall>a. globalStats (mainLoop days init_state) c = Some a \<longrightarrow>
        Count a = word_of_nat (length (observations c (records days)))
        \<and> (length (observations c (records days)) < 2 ^ 63 \<longrightarrow>
             sint (Count a) = int (length (observations c (records days)))))"
proof -
  have entry: "globalStats (mainLoop days init_state) c
                 = fold (entryStep c) (records days) None"
    by (simp add: mainLoop_entry init_state_def)
  have none: "globalStats (mainLoop days init_state) c = None
                \<longleftrightarrow> observations c (records days) = []"
    by (simp add: entry fold_entry_None_iff)
  have count: "Count a = word_of_nat (length (observations c (records days)))"
    if "globalStats (mainLoop days init_state) c = Some a" for a
    using fold_entry_count [of c "records days" None] that by (simp add: entry)
  show ?thesis
    using none count sint_word_of_nat_64 by auto
qed


theorem count_is_number_of_numeric_records_witness:
  "globalStats (mainLoop two_days init_state) ''USD'' \<noteq> None
   \<and> length (observations ''USD'' (records two_days)) = 2
   \<and> map_option Count (globalStats (mainLoop two_days init_state) ''USD'') = Some 2
   \<and> map_option (\<lambda>a. sint (Count a)) (globalStats (mainLoop two_days init_state) ''USD'')
       = Some 2
   \<and> observations ''EUR'' (records two_days) = []
   \<and> globalStats (mainLoop two_days init_state) ''EUR'' = None"
proof -
  have usd: "observations ''USD'' (records two_days)
      = [(''01.01.2024'', Finite False (151 / 2)),
         (''02.01.2024'', Finite False (5362098306337997 / 70368744177664))]"
    by code_simp
  have eur: "observations ''EUR'' (records two_days) = []"
    by code_simp
  note th = count_is_number_of_numeric_records [of two_days "''USD''"]
  note th_eur = count_is_number_of_numeric_records [of two_days "''EUR''"]
  from th usd obtain a where a: "globalStats (mainLoop two_days init_state) ''USD'' = Some a"
    by auto
  from th a usd have "Count a = 2 \<and> sint (Count a) = 2"
    by simp
  then show ?thesis
    using a usd eur th_eur by simp
qed

subsection \<open>The extremes\<close>

lemma fle_refl: "\<not> isNaN v \<Longrightarrow> fle v v"
  by (cases v) (simp_all add: fle_def isNaN_def)

lemma not_flt_fle: "\<not> isNaN a \<Longrightarrow> \<not> isNaN b \<Longrightarrow> \<not> flt a b \<Longrightarrow> fle b a"
  by (cases a; cases b) (auto simp: fle_def isNaN_def)

lemma flt_not_NaN: "flt a b \<Longrightarrow> \<not> isNaN a \<and> \<not> isNaN b"
  by (cases a; cases b) (simp_all add: isNaN_def)

lemma fle_flt_trans: "fle a b \<Longrightarrow> flt b c \<Longrightarrow> fle a c"
  by (cases a; cases b; cases c) (auto simp: fle_def)

lemma flt_fle_trans: "flt a b \<Longrightarrow> fle b c \<Longrightarrow> fle a c"
  by (cases a; cases b; cases c) (auto simp: fle_def)

lemma extremesBound_newStats:
  "\<not> isNaN v \<Longrightarrow> extremesBound (newStats d r v) {v}"
  by (simp add: extremesBound_def newStats_def fle_refl)

lemma extremesBound_updateStats:
  assumes "extremesBound a V"
  shows "extremesBound (updateStats d v a) (insert v V)"
proof -
  let ?a = "updateStats d v a"
  have mx: "MaxValue ?a = (if flt (MaxValue a) v then v else MaxValue a)"
    and mn: "MinValue ?a = (if flt v (MinValue a) then v else MinValue a)"
    by (simp_all add: updateStats_fields fgt_def)
  have nn: "\<not> isNaN (MinValue a)" "\<not> isNaN (MaxValue a)"
    using assms by (simp_all add: extremesBound_def)
  have old: "fle (MinValue a) w \<and> fle w (MaxValue a)" if "w \<in> V" "\<not> isNaN w" for w
    using assms that by (simp add: extremesBound_def)
  have "\<not> isNaN (MinValue ?a)" "\<not> isNaN (MaxValue ?a)"
    using nn flt_not_NaN [of v "MinValue a"] flt_not_NaN [of "MaxValue a" v]
    by (auto simp: mx mn)
  moreover have "fle (MinValue ?a) v \<and> fle v (MaxValue ?a)" if "\<not> isNaN v"
    using that nn not_flt_fle [of v "MinValue a"] not_flt_fle [of "MaxValue a" v]
    by (auto simp: mx mn fle_refl)
  moreover have "fle (MinValue ?a) w \<and> fle w (MaxValue ?a)" if "w \<in> V" "\<not> isNaN w" for w
    using old [OF that] flt_fle_trans [of v "MinValue a" w] fle_flt_trans [of w "MaxValue a" v]
    by (auto simp: mx mn)
  ultimately show ?thesis
    by (auto simp: extremesBound_def)
qed

lemma fold_entry_bound:
  assumes "extremesBound a0 V" and "fold (entryStep c) xs (Some a0) = Some a"
  shows "extremesBound a (V \<union> snd ` set (observations c xs))"
  using assms
proof (induction xs arbitrary: a0 V)
  case Nil
  then show ?case by (simp add: observations_Nil)
next
  case (Cons x xs)
  show ?case
  proof (cases "observation c x = []")
    case True
    then show ?thesis
      using Cons.IH [of a0 V] Cons.prems
      by (simp add: observations_Cons entryStep_no_observation)
  next
    case False
    then obtain v where v: "observation c x = [(fst x, v)]"
      using observation_cases [of c x] by blast
    have step: "entryStep c x (Some a0) = Some (updateStats (fst x) v a0)"
      using entryStep_observation [OF v, of "Some a0"] by simp
    have "extremesBound a (insert v V \<union> snd ` set (observations c xs))"
      using Cons.IH [of "updateStats (fst x) v a0" "insert v V"] Cons.prems
        extremesBound_updateStats [of a0 V]
      by (simp add: step)
    then show ?thesis
      by (simp add: observations_Cons v)
  qed
qed

lemma fold_entry_bound_first:
  assumes "observations c xs = (d0, v0) # rest" and "\<not> isNaN v0"
    and "fold (entryStep c) xs None = Some a"
  shows "extremesBound a (snd ` set (observations c xs))"
  using assms
proof (induction xs)
  case Nil
  then show ?case by (simp add: observations_Nil)
next
  case (Cons x xs)
  show ?case
  proof (cases "observation c x = []")
    case True
    then show ?thesis
      using Cons by (simp add: observations_Cons entryStep_no_observation)
  next
    case False
    then obtain v where v: "observation c x = [(fst x, v)]"
      using observation_cases [of c x] by blast
    have v0: "v = v0"
      using Cons.prems(1) by (simp add: observations_Cons v)
    have step: "entryStep c x None = Some (newStats (fst x) (snd x) v)"
      using entryStep_observation [OF v, of None] by simp
    have "extremesBound a ({v} \<union> snd ` set (observations c xs))"
      using fold_entry_bound [of "newStats (fst x) (snd x) v" "{v}" c xs a]
        extremesBound_newStats [of v "fst x" "snd x"] Cons.prems(2,3)
      by (simp add: step v0)
    then show ?thesis
      by (simp add: observations_Cons v)
  qed
qed

text \<open>
  C2. After the main loop has folded any sequence of days into the empty map, and
  provided the first numeric value folded for a currency is not a NaN, the entry of
  the currency satisfies \<^verbatim>\<open>MinValue <= v <= MaxValue\<close> for every value \<open>v\<close> folded for
  the currency that is not a NaN.
\<close>

theorem extremes_bound_non_NaN:
  assumes "globalStats (mainLoop days init_state) c = Some a"
    and "observations c (records days) = (d0, v0) # rest" and "\<not> isNaN v0"
    and "(d, v) \<in> set (observations c (records days))" and "\<not> isNaN v"
  shows "fle (MinValue a) v \<and> fle v (MaxValue a)"
proof -
  have "fold (entryStep c) (records days) None = Some a"
    using assms(1) by (simp add: mainLoop_entry init_state_def)
  then have "extremesBound a (snd ` set (observations c (records days)))"
    using fold_entry_bound_first [OF assms(2,3)] by simp
  moreover have "v \<in> snd ` set (observations c (records days))"
    using assms(4) by force
  ultimately show ?thesis
    using assms(5) unfolding extremesBound_def by blast
qed

theorem extremes_bound_non_NaN_witness:
  "globalStats (mainLoop two_days init_state) ''USD''
     = Some (the (globalStats (mainLoop two_days init_state) ''USD''))
   \<and> observations ''USD'' (records two_days)
     = (''01.01.2024'', Finite False (151 / 2))
       # [(''02.01.2024'', Finite False (5362098306337997 / 70368744177664))]
   \<and> \<not> isNaN (Finite False (151 / 2))
   \<and> (''02.01.2024'', Finite False (5362098306337997 / 70368744177664))
       \<in> set (observations ''USD'' (records two_days))
   \<and> \<not> isNaN (Finite False (5362098306337997 / 70368744177664))
   \<and> fle (MinValue (the (globalStats (mainLoop two_days init_state) ''USD'')))
         (Finite False (5362098306337997 / 70368744177664))
   \<and> fle (Finite False (5362098306337997 / 70368744177664))
         (MaxValue (the (globalStats (mainLoop two_days init_state) ''USD'')))"
proof -
  have h1: "globalStats (mainLoop two_days init_state) ''USD''
      = Some (the (globalStats (mainLoop two_days init_state) ''USD''))"
    by code_simp
  have h2: "observations ''USD'' (records two_days)
      = (''01.01.2024'', Finite False (151 / 2))
        # [(''02.01.2024'', Finite False (5362098306337997 / 70368744177664))]"
    by code_simp
  have h3: "\<not> isNaN (Finite False (151 / 2))"
    by (simp add: isNaN_def)
  have h4: "(''02.01.2024'', Finite False (5362098306337997 / 70368744177664))
      \<in> set (observations ''USD'' (records two_days))"
    by (simp add: h2)
  have h5: "\<not> isNaN (Finite False (5362098306337997 / 70368744177664))"
    by (simp add: isNaN_def)
  show ?thesis
    using extremes_bound_non_NaN [OF h1 h2 h3 h4 h5] h1 h2 h3 h4 h5 by simp
qed

text \<open>
  Without the proviso the bound fails: the parser reads \<^verbatim>\<open>NaN\<close> as a number, every
  comparison with a NaN is false, and so after a first rate \<^verbatim>\<open>NaN\<close> both extremes stay
  NaN; the rate 75,5 folded next is not within them.
\<close>

theorem extremes_bound_counterexample:
  "(''01.01.2024'', Finite False (151 / 2)) \<in> set (observations ''USD'' (records nan_day))
   \<and> globalStats (mainLoop nan_day init_state) ''USD'' \<noteq> None
   \<and> \<not> (fle (MinValue (the (globalStats (mainLoop nan_day init_state) ''USD'')))
             (Finite False (151 / 2))
         \<and> fle (Finite False (151 / 2))
             (MaxValue (the (globalStats (mainLoop nan_day init_state) ''USD''))))"
  by code_simp

subsection \<open>Order across currencies\<close>

lemma entryStep_other: "CharCode (snd x) \<noteq> c \<Longrightarrow> entryStep c x e = e"
  by (simp add: entryStep_def)

lemma fold_entry_filter:
  "fold (entryStep c) xs e = fold (entryStep c) (filter (\<lambda>x. CharCode (snd x) = c) xs) e"
  by (induction xs arbitrary: e) (simp_all add: entryStep_other)

text \<open>
  C7. Two sequences of days whose folded records are permutations of each other and
  have, for every currency code, the same records of that code in the same order: the
  main loop leaves the same entry for every currency, from any starting state.
\<close>

theorem order_across_currencies_irrelevant:
  assumes "mset (records days) = mset (records days')"
    and "\<forall>c. filter (\<lambda>x. CharCode (snd x) = c) (records days)
             = filter (\<lambda>x. CharCode (snd x) = c) (records days')"
  shows "globalStats (mainLoop days s) = globalStats (mainLoop days' s)"
proof
  fix c
  have "fold (entryStep c) (records days) (globalStats s c)
          = fold (entryStep c) (records days') (globalStats s c)"
    using assms(2) fold_entry_filter [of c "records days"] fold_entry_filter [of c "records days'"]
    by simp
  then show "globalStats (mainLoop days s) c = globalStats (mainLoop days' s) c"
    by (simp add: mainLoop_entry)
qed

theorem order_across_currencies_irrelevant_witness:
  "mset (records usd_then_eur) = mset (records eur_then_usd)
   \<and> (\<forall>c. filter (\<lambda>x. CharCode (snd x) = c) (records usd_then_eur)
             = filter (\<lambda>x. CharCode (snd x) = c) (records eur_then_usd))
   \<and> records usd_then_eur \<noteq> records eur_then_usd
   \<and> globalStats (mainLoop usd_then_eur init_state) = globalStats (mainLoop eur_then_usd init_state)"
proof -
  have h1: "mset (records usd_then_eur) = mset (records eur_then_usd)"
    by (simp add: records_def usd_then_eur_def eur_then_usd_def)
  have h2: "\<forall>c. filter (\<lambda>x. CharCode (snd x) = c) (records usd_then_eur)
             = filter (\<lambda>x. CharCode (snd x) = c) (records eur_then_usd)"
    by (simp add: records_def usd_then_eur_def eur_then_usd_def usd_def eur_def valute_def)
  have h3: "records usd_then_eur \<noteq> records eur_then_usd"
    by (simp add: records_def usd_then_eur_def eur_then_usd_def)
  show ?thesis
    using order_across_currencies_irrelevant [OF h1 h2, of init_state] h1 h2 h3 by simp
qed

subsection \<open>The second version follows the first\<close>

lemma analyzeValute2_forgetState:
  "analyzeValute2 d r (forgetState s) = forgetState (analyzeValute d r s)"
  by (auto simp: analyzeValute2_def analyzeValute_def forgetState_def forgetCodes_def
        newStats_def newStats2_def updateStats_fields updateStats2_fields
      split: sum.splits option.splits)

lemma analyzeData2_forgetState:
  "analyzeData2 vc (forgetState s) = forgetState (analyzeData vc s)"
proof -
  have "fold (analyzeValute2 d) rs (forgetState s) = forgetState (fold (analyzeValute d) rs s)"
    for d rs
    by (induction rs arbitrary: s) (simp_all add: analyzeValute2_forgetState)
  then show ?thesis
    by (simp add: analyzeData2_def analyzeData_def)
qed

lemma processDay2_forgetState:
  "processDay2 d (forgetState s) = forgetState (processDay d s)"
  by (cases d) (simp_all add: analyzeData2_forgetState, simp_all add: forgetState_def)

lemma mainLoop2_forgetState:
  "mainLoop2 days (forgetState s) = forgetState (mainLoop days s)"
  unfolding mainLoop2_def mainLoop_def
  by (induction days arbitrary: s) (simp_all add: processDay2_forgetState)

lemma forgetState_init: "forgetState init_state = init_state2"
  by (simp add: forgetState_def init_state_def init_state2_def)

lemma mainLoop2_entry:
  "globalStats2 (mainLoop2 days init_state2) c
     = map_option forgetCodes (globalStats (mainLoop days init_state) c)"
  using mainLoop2_forgetState [of days init_state]
  by (simp add: forgetState_init) (simp add: forgetState_def)


subsection \<open>The final loop\<close>

lemma count_positive:
  assumes "fold (entryStep c) xs None = Some a" and "length (observations c xs) < 2 ^ 63"
  shows "0 < sint (Count a)"
proof -
  have "Count a = word_of_nat (length (observations c xs))"
    using fold_entry_count [of c xs None] assms(1) by simp
  moreover have "observations c xs \<noteq> []"
    using fold_entry_None_iff [of c xs] assms(1) by auto
  ultimately show ?thesis
    using assms(2) by (simp add: sint_word_of_nat_64)
qed

text \<open>
  C6. The final loop (in either version of the program) sets the average of every entry
  to its sum divided by its count converted to \<^verbatim>\<open>float64\<close>, and changes nothing else;
  running it a second time yields the same map and the same printed lines. Every
  entry the main loop has built from the empty map has a positive count (as long as
  the currency has fewer than \<open>2\<^sup>6\<^sup>3\<close> numeric records).
\<close>

theorem finalize_sets_average_idempotent:
  "(\<forall>c. finalize t c
        = map_option (\<lambda>a. a\<lparr>Average := fdiv (TotalValue a) (float64_of_int (Count a))\<rparr>) (t c))
   \<and> (\<forall>c a. finalize t c = Some a \<longrightarrow>
         Average a = fdiv (TotalValue a) (float64_of_int (Count a)))
   \<and> finalize (finalize t) = finalize t
   \<and> printed (finalize t) = printed t
   \<and> (\<forall>c. finalize2 t2 c
        = map_option (\<lambda>a. a\<lparr>Average2 := fdiv (TotalValue2 a) (float64_of_int (Count2 a))\<rparr>)
            (t2 c))
   \<and> (\<forall>c a. finalize2 t2 c = Some a \<longrightarrow>
         Average2 a = fdiv (TotalValue2 a) (float64_of_int (Count2 a)))
   \<and> finalize2 (finalize2 t2) = finalize2 t2
   \<and> printed2 (finalize2 t2) = printed2 t2
   \<and> (\<forall>c a. globalStats (mainLoop days init_state) c = Some a \<longrightarrow>
         length (observations c (records days)) < 2 ^ 63 \<longrightarrow> 0 < sint (Count a))
   \<and> (\<forall>c a. globalStats2 (mainLoop2 days init_state2) c = Some a \<longrightarrow>
         length (observations c (records days)) < 2 ^ 63 \<longrightarrow> 0 < sint (Count2 a))"
proof -
  have set1: "finalize t c
      = map_option (\<lambda>a. a\<lparr>Average := fdiv (TotalValue a) (float64_of_int (Count a))\<rparr>) (t c)"
    for c
    by (simp add: finalize_def setAverage_def [abs_def])
  have avg1: "Average a = fdiv (TotalValue a) (float64_of_int (Count a))"
    if "finalize t c = Some a" for c a
    using that by (auto simp: finalize_def setAverage_def)
  have idem1: "finalize (finalize t) = finalize t"
  proof
    fix c
    show "finalize (finalize t) c = finalize t c"
      by (cases "t c") (simp_all add: finalize_def setAverage_def)
  qed
  have set2: "finalize2 t2 c
      = map_option (\<lambda>a. a\<lparr>Average2 := fdiv (TotalValue2 a) (float64_of_int (Count2 a))\<rparr>)
          (t2 c)" for c
    by (simp add: finalize2_def setAverage2_def [abs_def])
  have avg2: "Average2 a = fdiv (TotalValue2 a) (float64_of_int (Count2 a))"
    if "finalize2 t2 c = Some a" for c a
    using that by (auto simp: finalize2_def setAverage2_def)
  have idem2: "finalize2 (finalize2 t2) = finalize2 t2"
  proof
    fix c
    show "finalize2 (finalize2 t2) c = finalize2 t2 c"
      by (cases "t2 c") (simp_all add: finalize2_def setAverage2_def)
  qed
  have pos1: "0 < sint (Count a)"
    if "globalStats (mainLoop days init_state) c = Some a"
      and "length (observations c (records days)) < 2 ^ 63" for c a
    using that count_positive [of c "records days" a]
    by (simp add: mainLoop_entry init_state_def)
  have pos2: "0 < sint (Count2 a)"
    if "globalStats2 (mainLoop2 days init_state2) c = Some a"
      and "length (observations c (records days)) < 2 ^ 63" for c a
  proof -
    from that(1) obtain a1 where a1: "globalStats (mainLoop days init_state) c = Some a1"
      and a: "a = forgetCodes a1"
      by (auto simp: mainLoop2_entry)
    show ?thesis
      using pos1 [OF a1 that(2)] by (simp add: a forgetCodes_def)
  qed
  show ?thesis
    using set1 avg1 idem1 set2 avg2 idem2 pos1 pos2
    by (simp add: printed_def printed2_def)
qed


lemma two_days_usd_observations:
  "observations ''USD'' (records two_days)
     = [(''01.01.2024'', Finite False (151 / 2)),
        (''02.01.2024'', Finite False (5362098306337997 / 70368744177664))]"
  by code_simp

lemma two_days_usd:
  "globalStats (mainLoop two_days init_state) ''USD'' = Some usd_two_days"
  by code_simp

lemma usd_two_days_average:
  "fdiv (TotalValue usd_two_days) (float64_of_int (Count usd_two_days))
     = Finite False (2668734622937907 / 35184372088832)"
  by code_simp

theorem finalize_sets_average_idempotent_witness:
  "globalStats (mainLoop two_days init_state) ''USD'' = Some usd_two_days
   \<and> globalStats2 (mainLoop2 two_days init_state2) ''USD'' = Some (forgetCodes usd_two_days)
   \<and> length (observations ''USD'' (records two_days)) < 2 ^ 63
   \<and> finalize (globalStats (mainLoop two_days init_state)) ''USD''
     = Some (usd_two_days\<lparr>Average := Finite False (2668734622937907 / 35184372088832)\<rparr>)
   \<and> 0 < sint (Count usd_two_days)
   \<and> 0 < sint (Count2 (forgetCodes usd_two_days))
   \<and> finalize (finalize (globalStats (mainLoop two_days init_state)))
     = finalize (globalStats (mainLoop two_days init_state))"
proof -
  note th = finalize_sets_average_idempotent
      [of "globalStats (mainLoop two_days init_state)" _ two_days]
  have h1: "globalStats (mainLoop two_days init_state) ''USD'' = Some usd_two_days"
    by (rule two_days_usd)
  have h2: "globalStats2 (mainLoop2 two_days init_state2) ''USD'' = Some (forgetCodes usd_two_days)"
    by (simp add: mainLoop2_entry h1)
  have h3: "length (observations ''USD'' (records two_days)) < 2 ^ 63"
    by (simp add: two_days_usd_observations)
  have fin: "finalize (globalStats (mainLoop two_days init_state)) ''USD''
      = Some (usd_two_days\<lparr>Average := Finite False (2668734622937907 / 35184372088832)\<rparr>)"
    using th [THEN conjunct1, rule_format, of "''USD''"]
    by (simp add: h1 usd_two_days_average)
  have p1: "0 < sint (Count usd_two_days)"
    using th [THEN conjunct2, THEN conjunct2, THEN conjunct2, THEN conjunct2, THEN conjunct2,
        THEN conjunct2, THEN conjunct2, THEN conjunct2, THEN conjunct1, rule_format, OF h1 h3] .
  have p2: "0 < sint (Count2 (forgetCodes usd_two_days))"
    using th [THEN conjunct2, THEN conjunct2, THEN conjunct2, THEN conjunct2, THEN conjunct2,
        THEN conjunct2, THEN conjunct2, THEN conjunct2, THEN conjunct2, rule_format, OF h2 h3] .
  have idem: "finalize (finalize (globalStats (mainLoop two_days init_state)))
      = finalize (globalStats (mainLoop two_days init_state))"
    using th [THEN conjunct2, THEN conjunct2, THEN conjunct1] .
  show ?thesis
    using h1 h2 h3 fin p1 p2 idem by (intro conjI)
qed


subsection \<open>Periods and the parser\<close>

lemma periods_Nil: "periods [] = 0"
  by (simp add: periods_def)

lemma periods_Cons: "periods (c # cs) = (if c = CHR ''.'' then 1 else 0) + periods cs"
  by (simp add: periods_def)

lemma lower_period: "lower CHR ''.'' = 46"
  by (simp add: lower_def)

lemma periods_replace_commas:
  "periods (replace_commas s) = periods s + commas s"
  by (induction s) (simp_all add: periods_def commas_def replace_commas_def)

lemma commas_replace_commas: "commas (replace_commas s) = 0"
  by (auto simp: commas_def replace_commas_def filter_empty_conv)

lemma of_char_period_iff: "(of_char c :: nat) = 46 \<longleftrightarrow> c = CHR ''.''"
  using of_char_eq_iff [of c "CHR ''.''", where ?'a = nat] by simp

lemma commonPrefix_no_period:
  "CHR ''.'' \<notin> set p \<Longrightarrow> periods (take (commonPrefixLenIgnoreCase s p) s) = 0"
proof (induction s p rule: commonPrefixLenIgnoreCase.induct)
  case (1 c cs p ps)
  then show ?case
    by (auto simp: Let_def periods_Cons periods_Nil of_char_period_iff)
qed (simp_all add: periods_Nil)


lemma special_inf_no_period:
  "special_inf neg nsign s = Some (v, n) \<Longrightarrow> periods (take (n - nsign) s) = 0"
proof -
  assume a: "special_inf neg nsign s = Some (v, n)"
  let ?k = "commonPrefixLenIgnoreCase s ''infinity''"
  have all: "periods (take ?k s) = 0"
    by (rule commonPrefix_no_period) simp
  have "n - nsign \<le> ?k"
    using a by (auto simp: special_inf_def Let_def split: if_splits)
  then have "take (n - nsign) s = take (n - nsign) (take ?k s)"
    by (simp add: min_def)
  moreover have "periods (take m xs) \<le> periods xs" for m and xs :: string
    unfolding periods_def by (metis append_take_drop_id filter_append le_add1 length_append)
  ultimately show ?thesis
    using all by (metis le_zero_eq)
qed

lemma special_no_period:
  "special s = Some (v, n) \<Longrightarrow> periods (take n s) = 0"
proof (cases s)
  case Nil
  then show ?thesis by (simp add: periods_Nil)
next
  case (Cons c cs)
  assume a: "special s = Some (v, n)"
  show ?thesis
  proof (cases "c = CHR ''+'' \<or> c = CHR ''-''")
    case True
    then have si: "special_inf (c = CHR ''-'') 1 cs = Some (v, n)"
      using a Cons by auto
    then have "1 \<le> n"
      by (auto simp: special_inf_def Let_def split: if_splits)
    then obtain m where n: "n = Suc m"
      by (cases n) simp_all
    show ?thesis
      using special_inf_no_period [OF si] True Cons by (auto simp: n periods_Cons)
  next
    case False
    show ?thesis
    proof (cases "c = CHR ''i'' \<or> c = CHR ''I''")
      case True
      then have "special_inf False 0 s = Some (v, n)"
        using a Cons by auto
      then show ?thesis
        using special_inf_no_period [of False 0 s v n] by simp
    next
      case notI: False
      then have "n = 3 \<and> commonPrefixLenIgnoreCase s ''nan'' = 3"
        using a Cons False by (auto split: if_splits)
      then show ?thesis
        using commonPrefix_no_period [of "''nan''" s] by simp
    qed
  qed
qed


lemma not_digit_period: "\<not> is_digit CHR ''.''"
  by (simp add: is_digit_def)

lemma mantissa_loop_periods:
  "mantissa_loop base st s = (st', rest) \<Longrightarrow>
   periods s \<le> periods rest + (if sawdot st then 0 else 1)"
proof (induction base st s rule: mantissa_loop.induct)
  case (1 base st)
  then show ?case by simp
next
  case (2 base st c cs)
  then show ?case
    by (auto simp: periods_Cons split: if_splits)
qed

lemma exponent_loop_periods:
  "exponent_loop e us s = (e', us', rest) \<Longrightarrow> periods s = periods rest"
proof (induction e us s rule: exponent_loop.induct)
  case (1 e us)
  then show ?case by simp
next
  case (2 e us c cs)
  then show ?case
    using not_digit_period by (auto simp: periods_Cons split: if_splits)
qed

lemma exponent_part_periods:
  assumes "exponent_part cs = Some (e, us, rest)"
  shows "periods cs = periods rest"
proof (cases cs)
  case Nil
  then show ?thesis using assms by (simp add: exponent_part_def)
next
  case (Cons c cs')
  define s1 where "s1 = (if c = CHR ''+'' \<or> c = CHR ''-'' then cs' else cs)"
  have p: "periods cs = periods s1"
    by (auto simp: s1_def Cons periods_Cons)
  obtain e' us' rest' where el: "exponent_loop 0 False s1 = (e', us', rest')"
    by (cases "exponent_loop 0 False s1") auto
  have "rest = rest'"
    using assms el Cons
    by (auto simp: exponent_part_def Let_def s1_def split: list.splits if_splits)
  then show ?thesis
    using exponent_loop_periods [OF el] p by simp
qed

lemma is_hex_prefix_periods: "is_hex_prefix s \<Longrightarrow> periods (drop 2 s) = periods s"
proof (induction s rule: is_hex_prefix.induct)
  case (1 a b c cs)
  then have "a \<noteq> CHR ''.'' \<and> b \<noteq> CHR ''.''"
    using lower_period by auto
  then show ?case by (simp add: periods_Cons)
qed simp_all

lemma readFloat_periods:
  assumes "readFloat s = Some l"
  shows "periods s \<le> periods (lit_rest l) + 1"
proof -
  have ne: "s \<noteq> []"
    using assms by (auto simp: readFloat_def)
  define s1 where "s1 = (if hd s = CHR ''+'' \<or> hd s = CHR ''-'' then tl s else s)"
  define hex where "hex = is_hex_prefix s1"
  define base :: int where "base = (if hex then 16 else 10)"
  define s2 where "s2 = (if hex then drop 2 s1 else s1)"
  define st0 where "st0 = \<lparr>sawdot = False, sawdigits = False, nd = 0, dp = 0, mantissa = 0,
                    underscores = False\<rparr>"
  obtain st s3 where ml: "mantissa_loop base st0 s2 = (st, s3)"
    by (cases "mantissa_loop base st0 s2") auto
  define ex where "ex = (case s3 of
                              c # cs \<Rightarrow>
                                if lower c = (if hex then 112 else 101)
                                then exponent_part cs
                                else if hex then None else Some (0, False, s3)
                            | [] \<Rightarrow> if hex then None else Some (0, False, s3))"
  have "\<exists>e us. ex = Some (e, us, lit_rest l)"
    using assms ne ml
    by (auto simp: readFloat_def Let_def s1_def hex_def base_def s2_def st0_def ex_def
          split: if_splits option.splits)
  then obtain e us where ex_some: "ex = Some (e, us, lit_rest l)"
    by blast
  have p1: "periods s = periods s1"
    using ne by (cases s) (auto simp: s1_def periods_Cons)
  have p2: "periods s1 = periods s2"
    by (simp add: s2_def hex_def is_hex_prefix_periods)
  have p3: "periods s2 \<le> periods s3 + 1"
    using mantissa_loop_periods [OF ml] by (simp add: st0_def)
  have p4: "periods s3 = periods (lit_rest l)"
  proof (cases s3)
    case Nil
    then show ?thesis using ex_some by (auto simp: ex_def split: if_splits)
  next
    case (Cons c cs)
    show ?thesis
    proof (cases "lower c = (if hex then 112 else 101)")
      case True
      then have "c \<noteq> CHR ''.''"
        using lower_period by (auto split: if_splits)
      moreover have "exponent_part cs = Some (e, us, lit_rest l)"
        using ex_some True Cons by (simp add: ex_def)
      ultimately show ?thesis
        using exponent_part_periods [of cs e us "lit_rest l"] Cons by (simp add: periods_Cons)
    next
      case False
      then show ?thesis
        using ex_some Cons by (auto simp: ex_def split: if_splits)
    qed
  qed
  show ?thesis
    using p1 p2 p3 p4 by simp
qed

lemma atof64_periods:
  assumes "atof64 s = (r, length s)" and "r \<noteq> Inl ErrSyntax"
  shows "periods s \<le> 1"
proof (cases "special s")
  case (Some vn)
  then have "special s = Some (fst vn, length s)"
    using assms(1) by (cases vn) (simp add: atof64_def)
  then show ?thesis
    using special_no_period [of s "fst vn" "length s"] by simp
next
  case None
  then obtain l where l: "readFloat s = Some l"
    using assms by (cases "readFloat s") (auto simp: atof64_def)
  have ne: "s \<noteq> []"
    using l by (auto simp: readFloat_def)
  have "length s - length (lit_rest l) = length s"
    using assms(1) None l by (auto simp: atof64_def Let_def split: option.splits)
  moreover have "0 < length s"
    using ne by simp
  ultimately have "length (lit_rest l) = 0"
    by arith
  then have "lit_rest l = []"
    by simp
  then show ?thesis
    using readFloat_periods [OF l] by (simp add: periods_Nil)
qed

lemma ParseFloat_two_periods:
  assumes "2 \<le> periods s"
  shows "ParseFloat s = Inl ErrSyntax"
proof -
  obtain r n where a: "atof64 s = (r, n)"
    by (cases "atof64 s") auto
  have "n \<noteq> length s \<or> r = Inl ErrSyntax"
    using atof64_periods [of s r] a assms by auto
  then show ?thesis
    by (auto simp: ParseFloat_def a)
qed


text \<open>
  C9. \<^verbatim>\<open>analyzeData\<close> (in either version) replaces every comma of the rate by a period,
  not only the first. So a rate with more than one comma becomes a string without
  commas and with more than one period, the parser rejects it (a syntax error), and the
  record is skipped: the conversion error is printed and the map stays as it is.
\<close>

theorem several_commas_skipped:
  assumes "2 \<le> commas (Value r)"
  shows "commas (replace_commas (Value r)) = 0
     \<and> periods (replace_commas (Value r)) = periods (Value r) + commas (Value r)
     \<and> 2 \<le> periods (replace_commas (Value r))
     \<and> ParseFloat (replace_commas (Value r)) = Inl ErrSyntax
     \<and> analyzeValute d r s = s\<lparr>stdout := stdout s @ [ConvError (CharCode r) ErrSyntax]\<rparr>
     \<and> analyzeValute2 d r s2 = s2\<lparr>stdout2 := stdout2 s2 @ [ConvError (CharCode r) ErrSyntax]\<rparr>"
proof -
  have two: "2 \<le> periods (replace_commas (Value r))"
    using assms by (simp add: periods_replace_commas)
  have bad: "ParseFloat (replace_commas (Value r)) = Inl ErrSyntax"
    using two by (rule ParseFloat_two_periods)
  show ?thesis
    using two bad
    by (simp add: commas_replace_commas periods_replace_commas analyzeValute_def
          analyzeValute2_def)
qed

theorem several_commas_skipped_witness:
  "2 \<le> commas (Value (usd ''1,234,56''))
   \<and> replace_commas (Value (usd ''1,234,56'')) = ''1.234.56''
   \<and> periods ''1.234.56'' = 2
   \<and> ParseFloat ''1.234.56'' = Inl ErrSyntax
   \<and> analyzeValute ''01.01.2024'' (usd ''1,234,56'') init_state
       = init_state\<lparr>stdout := [ConvError ''USD'' ErrSyntax]\<rparr>
   \<and> analyzeValute2 ''01.01.2024'' (usd ''1,234,56'') init_state2
       = init_state2\<lparr>stdout2 := [ConvError ''USD'' ErrSyntax]\<rparr>"
proof -
  have h: "2 \<le> commas (Value (usd ''1,234,56''))"
    by (simp add: commas_def usd_def valute_def)
  have norm: "replace_commas (Value (usd ''1,234,56'')) = ''1.234.56''"
    by (simp add: replace_commas_def usd_def valute_def)
  have code: "CharCode (usd ''1,234,56'') = ''USD''"
    by (simp add: usd_def valute_def)
  have out: "stdout init_state = []" "stdout2 init_state2 = []"
    by (simp_all add: init_state_def init_state2_def)
  note th = several_commas_skipped [OF h, of "''01.01.2024''" init_state init_state2]
  show ?thesis
    using th h unfolding norm code out by (simp add: periods_def)
qed


subsection \<open>What counts as numeric\<close>

lemma parse_NaN: "ParseFloat ''NaN'' = Inr NaN"
  by code_simp

lemma parse_Inf: "ParseFloat ''Inf'' = Inr (Infty False)"
  by code_simp

lemma parse_exponent: "ParseFloat ''7.55e1'' = Inr (Finite False (151 / 2))"
  by code_simp

lemma fadd_NaN_right: "fadd x NaN = NaN"
  by (cases x) simp_all

lemma flt_NaN_left: "\<not> flt NaN x"
  by simp

lemma flt_NaN_right: "\<not> flt x NaN"
  by (cases x) simp_all

lemma flt_plus_infinity_left: "\<not> flt (Infty False) x"
  by (cases x) simp_all

text \<open>The update of an entry by a NaN and by \<open>+\<infinity>\<close>, from the code of the \<^verbatim>\<open>else\<close> branch.\<close>

lemma updateStats_NaN:
  "updateStats d NaN a = a\<lparr>TotalValue := NaN, Count := Count a + 1\<rparr>"
  by (simp add: updateStats_def Let_def fgt_def fadd_NaN_right flt_NaN_right)

lemma updateStats_plus_infinity:
  "updateStats d (Infty False) a =
     (if flt (MaxValue a) (Infty False)
      then a\<lparr>TotalValue := fadd (TotalValue a) (Infty False), Count := Count a + 1,
             MaxValue := Infty False, MaxDate := d\<rparr>
      else a\<lparr>TotalValue := fadd (TotalValue a) (Infty False), Count := Count a + 1\<rparr>)"
  by (simp add: updateStats_def Let_def fgt_def flt_plus_infinity_left)

text \<open>
  C10. \<^verbatim>\<open>analyzeData\<close> skips a record (prints the conversion error and leaves the map as
  it is) if and only if the parser rejects the rate, commas replaced. A rate the parser
  accepts as \<open>v\<close> is folded: a new entry with sum, minimum and maximum \<open>v\<close> and count 1,
  or the existing entry with \<open>v\<close> added to the sum, the count incremented and each
  extreme and its date replaced under the strict comparison. The parser accepts
  \<^verbatim>\<open>NaN\<close>, \<^verbatim>\<open>Inf\<close> and exponent notation such as \<^verbatim>\<open>7,55e1\<close>, so such a record is folded
  too: a NaN makes the sum NaN, increments the count and leaves the extremes of an
  existing entry as they are; \<^verbatim>\<open>Inf\<close> makes the sum the old sum plus \<open>+\<infinity>\<close>, increments
  the count and becomes the maximum whenever the maximum is less than \<open>+\<infinity>\<close>.
\<close>

theorem skipped_iff_parser_rejects:
  "((\<exists>e. analyzeValute d r s = s\<lparr>stdout := stdout s @ [ConvError (CharCode r) e]\<rparr>)
      \<longleftrightarrow> (\<exists>e. ParseFloat (replace_commas (Value r)) = Inl e))
   \<and> (\<forall>v. ParseFloat (replace_commas (Value r)) = Inr v \<longrightarrow>
         analyzeValute d r s =
           s\<lparr>globalStats := (globalStats s)(CharCode r \<mapsto>
               (case globalStats s (CharCode r) of
                  None \<Rightarrow>
                    \<lparr>MaxValue = v, MinValue = v, MaxDate = d, MinDate = d, TotalValue = v,
                     Count = 1, Average = Finite False 0, stNominal = Nominal r,
                     CurrencyName = Name r, stNumCode = NumCode r, stCharCode = CharCode r\<rparr>
                | Some a \<Rightarrow>
                    a\<lparr>TotalValue := fadd (TotalValue a) v, Count := Count a + 1,
                      MaxValue := (if fgt v (MaxValue a) then v else MaxValue a),
                      MaxDate := (if fgt v (MaxValue a) then d else MaxDate a),
                      MinValue := (if flt v (MinValue a) then v else MinValue a),
                      MinDate := (if flt v (MinValue a) then d else MinDate a)\<rparr>))\<rparr>)
   \<and> ParseFloat ''NaN'' = Inr NaN
   \<and> ParseFloat ''Inf'' = Inr (Infty False)
   \<and> ParseFloat (replace_commas ''7,55e1'') = Inr (Finite False (151 / 2))
   \<and> (Value r = ''NaN'' \<longrightarrow>
        analyzeValute d r s =
           s\<lparr>globalStats := (globalStats s)(CharCode r \<mapsto>
               (case globalStats s (CharCode r) of
                  None \<Rightarrow>
                    \<lparr>MaxValue = NaN, MinValue = NaN, MaxDate = d, MinDate = d,
                     TotalValue = NaN, Count = 1, Average = Finite False 0,
                     stNominal = Nominal r, CurrencyName = Name r, stNumCode = NumCode r,
                     stCharCode = CharCode r\<rparr>
                | Some a \<Rightarrow> a\<lparr>TotalValue := NaN, Count := Count a + 1\<rparr>))\<rparr>)
   \<and> (Value r = ''Inf'' \<longrightarrow>
        analyzeValute d r s =
           s\<lparr>globalStats := (globalStats s)(CharCode r \<mapsto>
               (case globalStats s (CharCode r) of
                  None \<Rightarrow>
                    \<lparr>MaxValue = Infty False, MinValue = Infty False, MaxDate = d,
                     MinDate = d, TotalValue = Infty False, Count = 1,
                     Average = Finite False 0, stNominal = Nominal r,
                     CurrencyName = Name r, stNumCode = NumCode r,
                     stCharCode = CharCode r\<rparr>
                | Some a \<Rightarrow>
                    (if flt (MaxValue a) (Infty False)
                     then a\<lparr>TotalValue := fadd (TotalValue a) (Infty False),
                            Count := Count a + 1, MaxValue := Infty False, MaxDate := d\<rparr>
                     else a\<lparr>TotalValue := fadd (TotalValue a) (Infty False),
                            Count := Count a + 1\<rparr>)))\<rparr>)
   \<and> (Value r = ''7,55e1'' \<longrightarrow>
        analyzeValute d r s =
           s\<lparr>globalStats := (globalStats s)(CharCode r \<mapsto>
               (case globalStats s (CharCode r) of
                  None \<Rightarrow>
                    \<lparr>MaxValue = Finite False (151 / 2), MinValue = Finite False (151 / 2),
                     MaxDate = d, MinDate = d, TotalValue = Finite False (151 / 2),
                     Count = 1, Average = Finite False 0, stNominal = Nominal r,
                     CurrencyName = Name r, stNumCode = NumCode r, stCharCode = CharCode r\<rparr>
                | Some a \<Rightarrow>
                    a\<lparr>TotalValue := fadd (TotalValue a) (Finite False (151 / 2)),
                      Count := Count a + 1,
                      MaxValue := (if fgt (Finite False (151 / 2)) (MaxValue a)
                                   then Finite False (151 / 2) else MaxValue a),
                      MaxDate := (if fgt (Finite False (151 / 2)) (MaxValue a)
                                  then d else MaxDate a),
                      MinValue := (if flt (Finite False (151 / 2)) (MinValue a)
                                   then Finite False (151 / 2) else MinValue a),
                      MinDate := (if flt (Finite False (151 / 2)) (MinValue a)
                                  then d else MinDate a)\<rparr>))\<rparr>)"
proof -
  have raw: "analyzeValute d r s =
           s\<lparr>globalStats := (globalStats s)(CharCode r \<mapsto>
               (case globalStats s (CharCode r) of
                  None \<Rightarrow> newStats d r v | Some a \<Rightarrow> updateStats d v a))\<rparr>"
    if "ParseFloat (replace_commas (Value r)) = Inr v" for v
    using that by (simp add: analyzeValute_def split: option.splits)
  have skipped: "analyzeValute d r s = s\<lparr>stdout := stdout s @ [ConvError (CharCode r) e]\<rparr>"
    if "ParseFloat (replace_commas (Value r)) = Inl e" for e
    using that by (simp add: analyzeValute_def)
  have not_both: "analyzeValute d r s \<noteq> s\<lparr>stdout := stdout s @ [ConvError (CharCode r) e]\<rparr>"
    if "ParseFloat (replace_commas (Value r)) = Inr v" for v e
  proof
    assume "analyzeValute d r s = s\<lparr>stdout := stdout s @ [ConvError (CharCode r) e]\<rparr>"
    then have "stdout (analyzeValute d r s) = stdout s @ [ConvError (CharCode r) e]"
      by simp
    then show False
      by (simp add: raw [OF that])
  qed
  have iff: "(\<exists>e. analyzeValute d r s = s\<lparr>stdout := stdout s @ [ConvError (CharCode r) e]\<rparr>)
      \<longleftrightarrow> (\<exists>e. ParseFloat (replace_commas (Value r)) = Inl e)"
    using skipped not_both by (cases "ParseFloat (replace_commas (Value r))") auto
  have exp: "ParseFloat (replace_commas ''7,55e1'') = Inr (Finite False (151 / 2))"
    using parse_exponent by (simp add: replace_commas_def)
  have norm: "replace_commas ''NaN'' = ''NaN''" "replace_commas ''Inf'' = ''Inf''"
    by (simp_all add: replace_commas_def)
  have folded: "\<forall>v. ParseFloat (replace_commas (Value r)) = Inr v \<longrightarrow>
         analyzeValute d r s =
           s\<lparr>globalStats := (globalStats s)(CharCode r \<mapsto>
               (case globalStats s (CharCode r) of
                  None \<Rightarrow>
                    \<lparr>MaxValue = v, MinValue = v, MaxDate = d, MinDate = d, TotalValue = v,
                     Count = 1, Average = Finite False 0, stNominal = Nominal r,
                     CurrencyName = Name r, stNumCode = NumCode r, stCharCode = CharCode r\<rparr>
                | Some a \<Rightarrow>
                    a\<lparr>TotalValue := fadd (TotalValue a) v, Count := Count a + 1,
                      MaxValue := (if fgt v (MaxValue a) then v else MaxValue a),
                      MaxDate := (if fgt v (MaxValue a) then d else MaxDate a),
                      MinValue := (if flt v (MinValue a) then v else MinValue a),
                      MinDate := (if flt v (MinValue a) then d else MinDate a)\<rparr>))\<rparr>"
    using raw by (simp add: newStats_def updateStats_fields split: option.splits)
  have nan: "Value r = ''NaN'' \<longrightarrow>
        analyzeValute d r s =
           s\<lparr>globalStats := (globalStats s)(CharCode r \<mapsto>
               (case globalStats s (CharCode r) of
                  None \<Rightarrow>
                    \<lparr>MaxValue = NaN, MinValue = NaN, MaxDate = d, MinDate = d,
                     TotalValue = NaN, Count = 1, Average = Finite False 0,
                     stNominal = Nominal r, CurrencyName = Name r, stNumCode = NumCode r,
                     stCharCode = CharCode r\<rparr>
                | Some a \<Rightarrow> a\<lparr>TotalValue := NaN, Count := Count a + 1\<rparr>))\<rparr>"
    using raw [of NaN] parse_NaN
    by (simp add: norm newStats_def updateStats_NaN split: option.splits)
  have inf: "Value r = ''Inf'' \<longrightarrow>
        analyzeValute d r s =
           s\<lparr>globalStats := (globalStats s)(CharCode r \<mapsto>
               (case globalStats s (CharCode r) of
                  None \<Rightarrow>
                    \<lparr>MaxValue = Infty False, MinValue = Infty False, MaxDate = d,
                     MinDate = d, TotalValue = Infty False, Count = 1,
                     Average = Finite False 0, stNominal = Nominal r,
                     CurrencyName = Name r, stNumCode = NumCode r,
                     stCharCode = CharCode r\<rparr>
                | Some a \<Rightarrow>
                    (if flt (MaxValue a) (Infty False)
                     then a\<lparr>TotalValue := fadd (TotalValue a) (Infty False),
                            Count := Count a + 1, MaxValue := Infty False, MaxDate := d\<rparr>
                     else a\<lparr>TotalValue := fadd (TotalValue a) (Infty False),
                            Count := Count a + 1\<rparr>)))\<rparr>"
    using raw [of "Infty False"] parse_Inf
    by (simp add: norm newStats_def updateStats_plus_infinity split: option.splits)
  have expo: "Value r = ''7,55e1'' \<longrightarrow>
        analyzeValute d r s =
           s\<lparr>globalStats := (globalStats s)(CharCode r \<mapsto>
               (case globalStats s (CharCode r) of
                  None \<Rightarrow>
                    \<lparr>MaxValue = Finite False (151 / 2), MinValue = Finite False (151 / 2),
                     MaxDate = d, MinDate = d, TotalValue = Finite False (151 / 2),
                     Count = 1, Average = Finite False 0, stNominal = Nominal r,
                     CurrencyName = Name r, stNumCode = NumCode r, stCharCode = CharCode r\<rparr>
                | Some a \<Rightarrow>
                    a\<lparr>TotalValue := fadd (TotalValue a) (Finite False (151 / 2)),
                      Count := Count a + 1,
                      MaxValue := (if fgt (Finite False (151 / 2)) (MaxValue a)
                                   then Finite False (151 / 2) else MaxValue a),
                      MaxDate := (if fgt (Finite False (151 / 2)) (MaxValue a)
                                  then d else MaxDate a),
                      MinValue := (if flt (Finite False (151 / 2)) (MinValue a)
                                   then Finite False (151 / 2) else MinValue a),
                      MinDate := (if flt (Finite False (151 / 2)) (MinValue a)
                                  then d else MinDate a)\<rparr>))\<rparr>"
  proof
    assume v: "Value r = ''7,55e1''"
    have "ParseFloat (replace_commas (Value r)) = Inr (Finite False (151 / 2))"
      using exp by (simp add: v)
    then show "analyzeValute d r s =
           s\<lparr>globalStats := (globalStats s)(CharCode r \<mapsto>
               (case globalStats s (CharCode r) of
                  None \<Rightarrow>
                    \<lparr>MaxValue = Finite False (151 / 2), MinValue = Finite False (151 / 2),
                     MaxDate = d, MinDate = d, TotalValue = Finite False (151 / 2),
                     Count = 1, Average = Finite False 0, stNominal = Nominal r,
                     CurrencyName = Name r, stNumCode = NumCode r, stCharCode = CharCode r\<rparr>
                | Some a \<Rightarrow>
                    a\<lparr>TotalValue := fadd (TotalValue a) (Finite False (151 / 2)),
                      Count := Count a + 1,
                      MaxValue := (if fgt (Finite False (151 / 2)) (MaxValue a)
                                   then Finite False (151 / 2) else MaxValue a),
                      MaxDate := (if fgt (Finite False (151 / 2)) (MaxValue a)
                                  then d else MaxDate a),
                      MinValue := (if flt (Finite False (151 / 2)) (MinValue a)
                                   then Finite False (151 / 2) else MinValue a),
                      MinDate := (if flt (Finite False (151 / 2)) (MinValue a)
                                  then d else MinDate a)\<rparr>))\<rparr>"
      using folded by blast
  qed
  show ?thesis
    using iff folded parse_NaN parse_Inf exp nan inf expo by (intro conjI)
qed

theorem skipped_iff_parser_rejects_witness:
  "Value (usd ''NaN'') = ''NaN''
   \<and> Value (usd ''Inf'') = ''Inf''
   \<and> globalStats (analyzeValute ''01.01.2024'' (usd ''NaN'') init_state) ''USD''
       = Some \<lparr>MaxValue = NaN, MinValue = NaN, MaxDate = ''01.01.2024'',
               MinDate = ''01.01.2024'', TotalValue = NaN, Count = 1,
               Average = Finite False 0, stNominal = 1, CurrencyName = ''US Dollar'',
               stNumCode = ''840'', stCharCode = ''USD''\<rparr>
   \<and> globalStats (analyzeValute ''01.01.2024'' (usd ''75,5'') init_state) ''USD''
       = Some \<lparr>MaxValue = Finite False (151 / 2), MinValue = Finite False (151 / 2),
               MaxDate = ''01.01.2024'', MinDate = ''01.01.2024'',
               TotalValue = Finite False (151 / 2), Count = 1,
               Average = Finite False 0, stNominal = 1, CurrencyName = ''US Dollar'',
               stNumCode = ''840'', stCharCode = ''USD''\<rparr>
   \<and> globalStats (analyzeValute ''02.01.2024'' (usd ''NaN'')
         (analyzeValute ''01.01.2024'' (usd ''75,5'') init_state)) ''USD''
       = Some \<lparr>MaxValue = Finite False (151 / 2), MinValue = Finite False (151 / 2),
               MaxDate = ''01.01.2024'', MinDate = ''01.01.2024'',
               TotalValue = NaN, Count = 2,
               Average = Finite False 0, stNominal = 1, CurrencyName = ''US Dollar'',
               stNumCode = ''840'', stCharCode = ''USD''\<rparr>
   \<and> globalStats (analyzeValute ''02.01.2024'' (usd ''Inf'')
         (analyzeValute ''01.01.2024'' (usd ''75,5'') init_state)) ''USD''
       = Some \<lparr>MaxValue = Infty False, MinValue = Finite False (151 / 2),
               MaxDate = ''02.01.2024'', MinDate = ''01.01.2024'',
               TotalValue = Infty False, Count = 2,
               Average = Finite False 0, stNominal = 1, CurrencyName = ''US Dollar'',
               stNumCode = ''840'', stCharCode = ''USD''\<rparr>
   \<and> stdout (analyzeValute ''02.01.2024'' (usd ''NaN'')
         (analyzeValute ''01.01.2024'' (usd ''75,5'') init_state)) = []
   \<and> ParseFloat (replace_commas (Value (eur ''abc''))) = Inl ErrSyntax
   \<and> analyzeValute ''01.01.2024'' (eur ''abc'') init_state
       = init_state\<lparr>stdout := stdout init_state @ [ConvError ''EUR'' ErrSyntax]\<rparr>"
proof -
  let ?s1 = "analyzeValute ''01.01.2024'' (usd ''75,5'') init_state"
  have h_nan: "Value (usd ''NaN'') = ''NaN''" and h_inf: "Value (usd ''Inf'') = ''Inf''"
    by (simp_all add: usd_def valute_def)
  have h_bad: "ParseFloat (replace_commas (Value (eur ''abc''))) = Inl ErrSyntax"
    by code_simp
  have h_num: "ParseFloat (replace_commas (Value (usd ''75,5''))) = Inr (Finite False (151 / 2))"
    by code_simp
  have fields: "CharCode (usd x) = ''USD''" "Nominal (usd x) = 1" "Name (usd x) = ''US Dollar''"
    "NumCode (usd x) = ''840''" "CharCode (eur x) = ''EUR''" for x
    by (simp_all add: usd_def eur_def valute_def)
  have empty: "globalStats init_state ''USD'' = None" "stdout init_state = []"
    by (simp_all add: init_state_def)
  have s1: "?s1 = init_state\<lparr>globalStats := (globalStats init_state)(''USD'' \<mapsto>
               \<lparr>MaxValue = Finite False (151 / 2), MinValue = Finite False (151 / 2),
                MaxDate = ''01.01.2024'', MinDate = ''01.01.2024'',
                TotalValue = Finite False (151 / 2), Count = 1,
                Average = Finite False 0, stNominal = 1, CurrencyName = ''US Dollar'',
                stNumCode = ''840'', stCharCode = ''USD''\<rparr>)\<rparr>"
    using skipped_iff_parser_rejects [of "''01.01.2024''" "usd ''75,5''" init_state,
        THEN conjunct2, THEN conjunct1, rule_format, OF h_num]
    by (simp add: fields empty)
  have e1: "globalStats ?s1 ''USD''
       = Some \<lparr>MaxValue = Finite False (151 / 2), MinValue = Finite False (151 / 2),
               MaxDate = ''01.01.2024'', MinDate = ''01.01.2024'',
               TotalValue = Finite False (151 / 2), Count = 1,
               Average = Finite False 0, stNominal = 1, CurrencyName = ''US Dollar'',
               stNumCode = ''840'', stCharCode = ''USD''\<rparr>"
    by (simp add: s1)
  have out1: "stdout ?s1 = []"
    by (simp add: s1 empty)
  have nan0: "analyzeValute ''01.01.2024'' (usd ''NaN'') init_state
       = init_state\<lparr>globalStats := (globalStats init_state)(''USD'' \<mapsto>
               \<lparr>MaxValue = NaN, MinValue = NaN, MaxDate = ''01.01.2024'',
                MinDate = ''01.01.2024'', TotalValue = NaN, Count = 1,
                Average = Finite False 0, stNominal = 1, CurrencyName = ''US Dollar'',
                stNumCode = ''840'', stCharCode = ''USD''\<rparr>)\<rparr>"
    using skipped_iff_parser_rejects [of "''01.01.2024''" "usd ''NaN''" init_state,
        THEN conjunct2, THEN conjunct2, THEN conjunct2, THEN conjunct2, THEN conjunct2,
        THEN conjunct1, rule_format, OF h_nan]
    by (simp add: fields empty)
  have nan1: "analyzeValute ''02.01.2024'' (usd ''NaN'') ?s1
       = ?s1\<lparr>globalStats := (globalStats ?s1)(''USD'' \<mapsto>
               \<lparr>MaxValue = Finite False (151 / 2), MinValue = Finite False (151 / 2),
                MaxDate = ''01.01.2024'', MinDate = ''01.01.2024'',
                TotalValue = NaN, Count = 2,
                Average = Finite False 0, stNominal = 1, CurrencyName = ''US Dollar'',
                stNumCode = ''840'', stCharCode = ''USD''\<rparr>)\<rparr>"
    using skipped_iff_parser_rejects [of "''02.01.2024''" "usd ''NaN''" ?s1,
        THEN conjunct2, THEN conjunct2, THEN conjunct2, THEN conjunct2, THEN conjunct2,
        THEN conjunct1, rule_format, OF h_nan]
    by (simp add: fields e1)
  have inf1: "analyzeValute ''02.01.2024'' (usd ''Inf'') ?s1
       = ?s1\<lparr>globalStats := (globalStats ?s1)(''USD'' \<mapsto>
               \<lparr>MaxValue = Infty False, MinValue = Finite False (151 / 2),
                MaxDate = ''02.01.2024'', MinDate = ''01.01.2024'',
                TotalValue = Infty False, Count = 2,
                Average = Finite False 0, stNominal = 1, CurrencyName = ''US Dollar'',
                stNumCode = ''840'', stCharCode = ''USD''\<rparr>)\<rparr>"
    using skipped_iff_parser_rejects [of "''02.01.2024''" "usd ''Inf''" ?s1,
        THEN conjunct2, THEN conjunct2, THEN conjunct2, THEN conjunct2, THEN conjunct2,
        THEN conjunct2, THEN conjunct1, rule_format, OF h_inf]
    by (simp add: fields e1)
  have "\<exists>e. analyzeValute ''01.01.2024'' (eur ''abc'') init_state
          = init_state\<lparr>stdout := stdout init_state @ [ConvError (CharCode (eur ''abc'')) e]\<rparr>"
    using skipped_iff_parser_rejects [of "''01.01.2024''" "eur ''abc''" init_state,
        THEN conjunct1] h_bad by blast
  then obtain e where e: "analyzeValute ''01.01.2024'' (eur ''abc'') init_state
          = init_state\<lparr>stdout := stdout init_state @ [ConvError ''EUR'' e]\<rparr>"
    by (auto simp: fields)
  have "stdout (analyzeValute ''01.01.2024'' (eur ''abc'') init_state)
          = stdout init_state @ [ConvError ''EUR'' e]"
    using e by simp
  moreover have "stdout (analyzeValute ''01.01.2024'' (eur ''abc'') init_state)
          = stdout init_state @ [ConvError ''EUR'' ErrSyntax]"
    using h_bad by (simp add: analyzeValute_def fields)
  ultimately have "e = ErrSyntax"
    by simp
  then have skip: "analyzeValute ''01.01.2024'' (eur ''abc'') init_state
       = init_state\<lparr>stdout := stdout init_state @ [ConvError ''EUR'' ErrSyntax]\<rparr>"
    using e by simp
  have g_nan0: "globalStats (analyzeValute ''01.01.2024'' (usd ''NaN'') init_state) ''USD''
       = Some \<lparr>MaxValue = NaN, MinValue = NaN, MaxDate = ''01.01.2024'',
               MinDate = ''01.01.2024'', TotalValue = NaN, Count = 1,
               Average = Finite False 0, stNominal = 1, CurrencyName = ''US Dollar'',
               stNumCode = ''840'', stCharCode = ''USD''\<rparr>"
    by (simp add: nan0)
  have g_nan1: "globalStats (analyzeValute ''02.01.2024'' (usd ''NaN'') ?s1) ''USD''
       = Some \<lparr>MaxValue = Finite False (151 / 2), MinValue = Finite False (151 / 2),
               MaxDate = ''01.01.2024'', MinDate = ''01.01.2024'',
               TotalValue = NaN, Count = 2,
               Average = Finite False 0, stNominal = 1, CurrencyName = ''US Dollar'',
               stNumCode = ''840'', stCharCode = ''USD''\<rparr>"
    by (simp only: nan1) simp
  have g_inf1: "globalStats (analyzeValute ''02.01.2024'' (usd ''Inf'') ?s1) ''USD''
       = Some \<lparr>MaxValue = Infty False, MinValue = Finite False (151 / 2),
               MaxDate = ''02.01.2024'', MinDate = ''01.01.2024'',
               TotalValue = Infty False, Count = 2,
               Average = Finite False 0, stNominal = 1, CurrencyName = ''US Dollar'',
               stNumCode = ''840'', stCharCode = ''USD''\<rparr>"
    by (simp only: inf1) simp
  have o_nan1: "stdout (analyzeValute ''02.01.2024'' (usd ''NaN'') ?s1) = []"
    by (simp only: nan1) (simp add: out1)
  show ?thesis
    using h_nan h_inf g_nan0 e1 g_nan1 g_inf1 o_nan1 h_bad skip by (intro conjI)
qed

subsection \<open>What the final loop prints\<close>

lemma fold_entry_identity:
  "fold (entryStep c) xs (Some a0) = Some a \<Longrightarrow>
   CurrencyName a = CurrencyName a0 \<and> stNumCode a = stNumCode a0
   \<and> stNominal a = stNominal a0 \<and> stCharCode a = stCharCode a0"
proof (induction xs arbitrary: a0)
  case Nil
  then show ?case by simp
next
  case (Cons x xs)
  show ?case
  proof (cases "observation c x = []")
    case True
    then show ?thesis
      using Cons by (simp add: entryStep_no_observation)
  next
    case False
    then obtain v where v: "observation c x = [(fst x, v)]"
      using observation_cases [of c x] by blast
    have step: "entryStep c x (Some a0) = Some (updateStats (fst x) v a0)"
      using entryStep_observation [OF v, of "Some a0"] by simp
    show ?thesis
      using Cons.IH [of "updateStats (fst x) v a0"] Cons.prems
      by (simp add: step updateStats_fields)
  qed
qed

lemma fold_entry_extremes:
  "fold (entryStep c) xs (Some a0) = Some a \<Longrightarrow>
   ((MaxDate a, MaxValue a) = (MaxDate a0, MaxValue a0)
      \<or> (MaxDate a, MaxValue a) \<in> set (observations c xs))
   \<and> ((MinDate a, MinValue a) = (MinDate a0, MinValue a0)
      \<or> (MinDate a, MinValue a) \<in> set (observations c xs))"
proof (induction xs arbitrary: a0)
  case Nil
  then show ?case by simp
next
  case (Cons x xs)
  show ?case
  proof (cases "observation c x = []")
    case True
    then show ?thesis
      using Cons by (simp add: entryStep_no_observation observations_Cons)
  next
    case False
    then obtain v where v: "observation c x = [(fst x, v)]"
      using observation_cases [of c x] by blast
    have step: "entryStep c x (Some a0) = Some (updateStats (fst x) v a0)"
      using entryStep_observation [OF v, of "Some a0"] by simp
    show ?thesis
      using Cons.IH [of "updateStats (fst x) v a0"] Cons.prems
      by (auto simp: step updateStats_fields observations_Cons v split: if_splits)
  qed
qed

lemma fold_entry_first:
  assumes "observations c xs \<noteq> []"
  shows "\<exists>d0 r0 v0 zs. find (\<lambda>x. observation c x \<noteq> []) xs = Some (d0, r0)
           \<and> CharCode r0 = c
           \<and> observations c xs = (d0, v0) # observations c zs
           \<and> fold (entryStep c) xs None = fold (entryStep c) zs (Some (newStats d0 r0 v0))"
  using assms
proof (induction xs)
  case Nil
  then show ?case by (simp add: observations_Nil)
next
  case (Cons x xs)
  show ?case
  proof (cases "observation c x = []")
    case True
    then show ?thesis
      using Cons by (simp add: entryStep_no_observation observations_Cons)
  next
    case False
    then obtain v where v: "observation c x = [(fst x, v)]"
      using observation_cases [of c x] by blast
    have step: "entryStep c x None = Some (newStats (fst x) (snd x) v)"
      using entryStep_observation [OF v, of None] by simp
    have code: "CharCode (snd x) = c"
      using v by (cases x) (auto split: if_splits)
    show ?thesis
      using False v step code
      by (intro exI [of _ "fst x"] exI [of _ "snd x"] exI [of _ v] exI [of _ xs])
         (simp add: observations_Cons)
  qed
qed

lemma setAverage2_forgetCodes: "setAverage2 (forgetCodes a) = forgetCodes (setAverage a)"
  by (simp add: setAverage2_def setAverage_def forgetCodes_def)

lemma finalize2_entry:
  "finalize2 (globalStats2 (mainLoop2 days init_state2)) c
     = map_option forgetCodes (finalize (globalStats (mainLoop days init_state)) c)"
  by (simp add: finalize2_def finalize_def mainLoop2_entry option.map_comp comp_def
        setAverage2_forgetCodes)

text \<open>
  C8. For every currency with at least one numeric record, the final loop of the first
  version prints a line with its name, its character code and numeric code (and its
  nominal), its maximum and minimum, each with the date of a record that had that
  value, and its average; name, numeric code and nominal are those of the first
  numeric record of the currency. The final loop of the second version prints for the
  same currency its name, the same extremes with their dates and the same average,
  and neither code.
\<close>

theorem final_lines:
  assumes "observations c (records days) \<noteq> []"
  shows "\<exists>a. finalize (globalStats (mainLoop days init_state)) c = Some a
     \<and> statsLine a \<in> printed (globalStats (mainLoop days init_state))
     \<and> statsLine a = StatsLine (CurrencyName a) c (stNumCode a) (stNominal a)
          (MaxValue a) (MaxDate a) (MinValue a) (MinDate a)
          (fdiv (TotalValue a) (float64_of_int (Count a)))
     \<and> (MaxDate a, MaxValue a) \<in> set (observations c (records days))
     \<and> (MinDate a, MinValue a) \<in> set (observations c (records days))
     \<and> (\<forall>d0 r0. find (\<lambda>x. observation c x \<noteq> []) (records days) = Some (d0, r0) \<longrightarrow>
           CurrencyName a = Name r0 \<and> stNumCode a = NumCode r0 \<and> stNominal a = Nominal r0)
     \<and> finalize2 (globalStats2 (mainLoop2 days init_state2)) c = Some (forgetCodes a)
     \<and> statsLine2 (forgetCodes a) \<in> printed2 (globalStats2 (mainLoop2 days init_state2))
     \<and> statsLine2 (forgetCodes a) = StatsLine2 (CurrencyName a)
          (MaxValue a) (MaxDate a) (MinValue a) (MinDate a)
          (fdiv (TotalValue a) (float64_of_int (Count a)))"
proof -
  let ?t = "globalStats (mainLoop days init_state)"
  let ?t2 = "globalStats2 (mainLoop2 days init_state2)"
  obtain d0 r0 v0 zs where
    first: "find (\<lambda>x. observation c x \<noteq> []) (records days) = Some (d0, r0)"
    and code: "CharCode r0 = c"
    and obs: "observations c (records days) = (d0, v0) # observations c zs"
    and fold: "fold (entryStep c) (records days) None
                 = fold (entryStep c) zs (Some (newStats d0 r0 v0))"
    using fold_entry_first [OF assms] by blast
  obtain a0 where a0: "fold (entryStep c) zs (Some (newStats d0 r0 v0)) = Some a0"
    using fold_entry_Some [of c zs "newStats d0 r0 v0"] by auto
  have entry: "?t c = Some a0"
    by (simp add: mainLoop_entry init_state_def fold a0)
  define a where "a = setAverage a0"
  have fin: "finalize ?t c = Some a"
    by (simp add: finalize_def entry a_def)
  have ident: "CurrencyName a = Name r0 \<and> stNumCode a = NumCode r0
      \<and> stNominal a = Nominal r0 \<and> stCharCode a = c"
    using fold_entry_identity [OF a0] code by (simp add: a_def setAverage_def newStats_def)
  have ext: "(MaxDate a, MaxValue a) \<in> set (observations c (records days))
      \<and> (MinDate a, MinValue a) \<in> set (observations c (records days))"
    using fold_entry_extremes [OF a0] by (auto simp: a_def setAverage_def newStats_def obs)
  have avg: "Average a = fdiv (TotalValue a) (float64_of_int (Count a))"
    by (simp add: a_def setAverage_def)
  have line: "statsLine a \<in> printed ?t"
    unfolding printed_def using fin by (intro imageI ranI)
  have fin2: "finalize2 ?t2 c = Some (forgetCodes a)"
    by (simp add: finalize2_entry fin)
  have line2: "statsLine2 (forgetCodes a) \<in> printed2 ?t2"
    unfolding printed2_def using fin2 by (intro imageI ranI)
  show ?thesis
    using fin line ident ext avg first fin2 line2
    by (intro exI [of _ a]) (simp add: statsLine_def statsLine2_def forgetCodes_def)
qed


theorem final_lines_witness:
  "observations ''USD'' (records two_days) \<noteq> []
   \<and> finalize (globalStats (mainLoop two_days init_state)) ''USD''
       = Some (usd_two_days\<lparr>Average := Finite False (2668734622937907 / 35184372088832)\<rparr>)
   \<and> StatsLine ''US Dollar'' ''USD'' ''840'' 1
        (Finite False (5362098306337997 / 70368744177664)) ''02.01.2024''
        (Finite False (151 / 2)) ''01.01.2024''
        (Finite False (2668734622937907 / 35184372088832))
       \<in> printed (globalStats (mainLoop two_days init_state))
   \<and> StatsLine2 ''US Dollar''
        (Finite False (5362098306337997 / 70368744177664)) ''02.01.2024''
        (Finite False (151 / 2)) ''01.01.2024''
        (Finite False (2668734622937907 / 35184372088832))
       \<in> printed2 (globalStats2 (mainLoop2 two_days init_state2))"
proof -
  have h: "observations ''USD'' (records two_days) \<noteq> []"
    by (simp add: two_days_usd_observations)
  have fin: "finalize (globalStats (mainLoop two_days init_state)) ''USD''
       = Some (usd_two_days\<lparr>Average := Finite False (2668734622937907 / 35184372088832)\<rparr>)"
    by (simp add: finalize_def two_days_usd setAverage_def usd_two_days_average)
  obtain a where a: "finalize (globalStats (mainLoop two_days init_state)) ''USD'' = Some a"
    and l1: "statsLine a \<in> printed (globalStats (mainLoop two_days init_state))"
    and l2: "statsLine2 (forgetCodes a) \<in> printed2 (globalStats2 (mainLoop2 two_days init_state2))"
    using final_lines [OF h] by blast
  have "a = usd_two_days\<lparr>Average := Finite False (2668734622937907 / 35184372088832)\<rparr>"
    using a fin by simp
  then have "statsLine a = StatsLine ''US Dollar'' ''USD'' ''840'' 1
        (Finite False (5362098306337997 / 70368744177664)) ''02.01.2024''
        (Finite False (151 / 2)) ''01.01.2024''
        (Finite False (2668734622937907 / 35184372088832))"
    and "statsLine2 (forgetCodes a) = StatsLine2 ''US Dollar''
        (Finite False (5362098306337997 / 70368744177664)) ''02.01.2024''
        (Finite False (151 / 2)) ''01.01.2024''
        (Finite False (2668734622937907 / 35184372088832))"
    by (simp_all add: statsLine_def statsLine2_def forgetCodes_def usd_two_days_def)
  then show ?thesis
    using h fin l1 l2 by simp
qed

lemma parse_75_5: "ParseFloat (replace_commas ''75,5'') = Inr (Finite False (151 / 2))"
  by code_simp

lemma average_of_one:
  "fdiv (Finite False (151 / 2)) (float64_of_int 1) = Finite False (151 / 2)"
  by code_simp

lemma dollar_day_table2:
  "globalStats2 (mainLoop2 (dollar_day num code) init_state2)
     = [code \<mapsto> \<lparr>MaxValue2 = Finite False (151 / 2), MinValue2 = Finite False (151 / 2),
          MaxDate2 = ''01.01.2024'', MinDate2 = ''01.01.2024'',
          TotalValue2 = Finite False (151 / 2), Count2 = 1, Average2 = Finite False 0,
          CurrencyName2 = ''Dollar''\<rparr>]"
  by (simp add: dollar_day_def mainLoop2_def analyzeData2_def analyzeValute2_def valute_def
        parse_75_5 init_state2_def newStats2_def)

lemma dollar_day_printed2:
  "printed2 (globalStats2 (mainLoop2 (dollar_day num code) init_state2))
     = {StatsLine2 ''Dollar'' (Finite False (151 / 2)) ''01.01.2024''
          (Finite False (151 / 2)) ''01.01.2024'' (Finite False (151 / 2))}"
proof -
  let ?x = "\<lparr>MaxValue2 = Finite False (151 / 2), MinValue2 = Finite False (151 / 2),
          MaxDate2 = ''01.01.2024'', MinDate2 = ''01.01.2024'',
          TotalValue2 = Finite False (151 / 2), Count2 = 1, Average2 = Finite False 0,
          CurrencyName2 = ''Dollar''\<rparr>"
  have "finalize2 [code \<mapsto> ?x] = [code \<mapsto> setAverage2 ?x]"
    by (rule ext) (simp add: finalize2_def)
  then show ?thesis
    by (simp add: printed2_def dollar_day_table2 statsLine2_def setAverage2_def average_of_one)
qed

text \<open>
  The lines of the second version carry no code: two feeds that differ in the numeric
  code and the character code of their only currency print the same line.
\<close>

theorem final_lines_counterexample:
  "observations ''USD'' (records (dollar_day ''840'' ''USD'')) \<noteq> []
   \<and> observations ''AUD'' (records (dollar_day ''036'' ''AUD'')) \<noteq> []
   \<and> printed2 (globalStats2 (mainLoop2 (dollar_day ''840'' ''USD'') init_state2))
       = {StatsLine2 ''Dollar'' (Finite False (151 / 2)) ''01.01.2024''
            (Finite False (151 / 2)) ''01.01.2024'' (Finite False (151 / 2))}
   \<and> printed2 (globalStats2 (mainLoop2 (dollar_day ''036'' ''AUD'') init_state2))
       = printed2 (globalStats2 (mainLoop2 (dollar_day ''840'' ''USD'') init_state2))"
proof -
  have "observations ''USD'' (records (dollar_day ''840'' ''USD'')) \<noteq> []"
    and "observations ''AUD'' (records (dollar_day ''036'' ''AUD'')) \<noteq> []"
    by (simp_all add: observations_def records_def dollar_day_def valute_def parseRate_def
          parse_75_5)
  then show ?thesis
    by (simp add: dollar_day_printed2)
qed


end
